theory Spec2Isabelle
  imports Main "HOL-Library.Word"
begin

section \<open>Data model of the declaration lowering engine (Backend.cpp)\<close>

text \<open>
  The engine works on three kinds of objects: GCC declaration nodes (\<open>tree\<close>), LLVM
  global values (variables, functions and aliases of the output module) and LLVM
  constants that refer to them.  Objects are identified by their address: a \<open>tree\<close> and
  a \<open>gid\<close> are such identities.  Assertion failures and \<open>abort()\<close> of the source are
  results of the model, never silent.
\<close>

datatype failure = AssertFail string | Abort | UseAfterFree | OutOfFuel

type_synonym tree = nat
type_synonym gid = nat

datatype llvm_type =
    VoidTy
  | IntTy nat
  | PointerTy llvm_type
  | StructTy "llvm_type list"
  | ArrayTy nat llvm_type
  | FunctionTy llvm_type "llvm_type list" bool

datatype llvm_constant =
    GlobalRef gid
  | BitCastExpr llvm_constant llvm_type
  | UndefValue llvm_type
  | NullValue llvm_type
  | ConstantInt llvm_type int
  | ConstantString llvm_type string

datatype linkage =
    ExternalLinkage
  | AvailableExternallyLinkage
  | LinkOnceAnyLinkage
  | LinkOnceODRLinkage
  | WeakAnyLinkage
  | WeakODRLinkage
  | AppendingLinkage
  | InternalLinkage
  | PrivateLinkage
  | LinkerPrivateLinkage
  | DLLImportLinkage
  | DLLExportLinkage
  | ExternalWeakLinkage
  | CommonLinkage

datatype visibility = DefaultVisibility | HiddenVisibility | ProtectedVisibility

datatype gcc_visibility =
  VISIBILITY_DEFAULT | VISIBILITY_PROTECTED | VISIBILITY_HIDDEN | VISIBILITY_INTERNAL

subsection \<open>Instructions of a function body\<close>

text \<open>
  An operand carries its type, as \<open>Value::getType()\<close> does.  An instruction is stored
  with the number of the value it defines.
\<close>

datatype operand =
    ConstOp llvm_constant llvm_type
  | ArgOp nat llvm_type
  | InstOp nat llvm_type

record call_inst =
  call_callee :: operand
  call_args :: "operand list"
  call_conv :: nat
  call_attrs :: "(bool \<times> bool) list"
  call_tail :: bool

datatype instruction =
    BitCastInst operand llvm_type
  | GEPInst operand operand
  | LoadInst operand
  | PtrToIntInst operand llvm_type
  | ICmpEQInst operand operand
  | CallInst call_inst
  | RetInst "operand option"
  | CondBrInst operand string string

record basic_block =
  bb_name :: string
  bb_insts :: "(nat \<times> instruction) list"

subsection \<open>Global values of the output module\<close>

datatype value_kind = GlobalVariableKind | FunctionKind | GlobalAliasKind

record global_value =
  gv_kind :: value_kind
  gv_name :: string
  gv_elem_type :: llvm_type
  gv_in_module :: bool
  gv_linkage :: linkage
  gv_visibility :: visibility
  gv_is_constant :: bool
  gv_initializer :: "llvm_constant option"
  gv_thread_local :: bool
  gv_section :: string
  gv_alignment :: nat
  gv_callingconv :: nat
  gv_attributes :: "(bool \<times> bool) list"
  gv_body :: "basic_block list"
  gv_aliasee :: "llvm_constant option"

subsection \<open>GCC declarations\<close>

datatype tree_code =
  VAR_DECL | CONST_DECL | FUNCTION_DECL | PARM_DECL | RESULT_DECL | TYPE_DECL | LABEL_DECL

text \<open>
  A GCC type as the engine reads it.  \<open>ConvertType\<close> is the answer of the type
  conversion service for this type (deterministic, so a field of the type).
\<close>

record gcc_type =
  TYPE_SIZE :: "nat option"
  TYPE_MODE_BLKmode :: bool
  AGGREGATE_TYPE_P :: bool
  ConvertType :: llvm_type

text \<open>
  \<open>DECL_INITIAL\<close>: \<open>None\<close> is the null tree.  The constructors are the initial values
  the initializer conversion service is modelled on.
\<close>

datatype initial =
    error_mark_node
  | INTEGER_CST gcc_type int
  | STRING_CST gcc_type string
  | ADDR_EXPR gcc_type tree
  | NON_CONSTANT_EXPR gcc_type

fun TREE_CONSTANT :: "initial \<Rightarrow> bool" where
  "TREE_CONSTANT error_mark_node = False"
| "TREE_CONSTANT (INTEGER_CST ty i) = True"
| "TREE_CONSTANT (STRING_CST ty str) = True"
| "TREE_CONSTANT (ADDR_EXPR ty t) = True"
| "TREE_CONSTANT (NON_CONSTANT_EXPR ty) = False"

fun is_STRING_CST :: "initial \<Rightarrow> bool" where
  "is_STRING_CST (STRING_CST ty str) = True"
| "is_STRING_CST i = False"

record decl =
  TREE_CODE :: tree_code
  HAS_RTL_P :: bool
  TREE_TYPE :: gcc_type
  DECL_SIZE :: "nat option"
  DECL_INITIAL :: "initial option"
  DECL_ASSEMBLER_NAME :: "string option"
  DECL_REGISTER :: bool
  TREE_PUBLIC :: bool
  TREE_STATIC :: bool
  DECL_EXTERNAL :: bool
  DECL_WEAK :: bool
  DECL_ONE_ONLY :: bool
  DECL_COMMON :: bool
  DECL_COMDAT :: bool
  TREE_READONLY :: bool
  TREE_SIDE_EFFECTS :: bool
  TREE_THIS_VOLATILE :: bool
  DECL_THREAD_LOCAL_P :: bool
  DECL_SECTION_NAME :: "string option"
  DECL_ALIGN :: nat
  DECL_USER_ALIGN :: bool
  DECL_PRESERVE_P :: bool
  DECL_ATTRIBUTES :: "string list"
  DECL_VISIBILITY :: gcc_visibility
  DECL_VISIBILITY_SPECIFIED :: bool
  TREE_ASM_WRITTEN :: bool
  ConvertFunctionType :: "llvm_type \<times> nat \<times> (bool \<times> bool) list"

subsection \<open>The state of one compilation unit\<close>

text \<open>
  The storage of the identity cache is a \<open>void *\<close>: either a pointer to a value or a
  pointer-sized integer (the null pointer is \<open>Raw 0\<close>).
\<close>

datatype voidp = Raw "64 word" | ValuePtr llvm_constant

datatype diagnostic = Error string | Sorry string | Warning string

record state =
  trees :: "tree \<Rightarrow> decl"
  cache :: "tree \<Rightarrow> voidp"
  globals :: "(gid \<times> global_value) list"
  StaticCtors :: "(llvm_constant \<times> int) list"
  StaticDtors :: "(llvm_constant \<times> int) list"
  AttributeUsedGlobals :: "llvm_constant list"
  AttributeCompilerUsedGlobals :: "llvm_constant list"
  errorcount :: nat
  sorrycount :: nat
  diagnostics :: "diagnostic list"
  flag_odr :: bool
  flag_default_initialize_globals :: bool
  ENABLE_CHECKING :: bool
  REGISTER_PREFIX :: "string option"
  decode_reg_name :: "string \<Rightarrow> int"
  ABITypeAlignment :: "llvm_type \<Rightarrow> nat"
  TypeAllocSizeInBits :: "llvm_type \<Rightarrow> nat"
  cgraph_node_for_asm :: "string \<Rightarrow> tree option"
  varpool_node_for_asm :: "string \<Rightarrow> tree option"

section \<open>Matching LLVM values with GCC declarations\<close>

text \<open>
  Modelled from the spec: the cache primitives \<open>llvm_get_cached\<close>, \<open>llvm_set_cached\<close>
  and \<open>llvm_replace_cached\<close> are not in Backend.cpp.  By section 4.1, binding records
  the mapping and overwrites any previous one, lookup returns what was bound or the
  null pointer, and rebinding replaces the old value wherever it is bound.
\<close>

definition llvm_get_cached :: "tree \<Rightarrow> state \<Rightarrow> voidp" where
  "llvm_get_cached t s = cache s t"

definition llvm_set_cached :: "tree \<Rightarrow> voidp \<Rightarrow> state \<Rightarrow> state" where
  "llvm_set_cached t p s = s\<lparr>cache := (cache s)(t := p)\<rparr>"

definition llvm_replace_cached :: "llvm_constant \<Rightarrow> llvm_constant \<Rightarrow> state \<Rightarrow> state" where
  "llvm_replace_cached Old New s =
     s\<lparr>cache := (\<lambda>t. if cache s t = ValuePtr Old then ValuePtr New else cache s t)\<rparr>"

text \<open>A \<open>Value *\<close> stored in a \<open>void *\<close>, and read back.\<close>

definition voidp_of_value :: "llvm_constant option \<Rightarrow> voidp" where
  "voidp_of_value V = (case V of None \<Rightarrow> Raw 0 | Some c \<Rightarrow> ValuePtr c)"

text \<open>
  \<open>set_decl_llvm\<close> and \<open>get_decl_llvm\<close>.  Reading a non-null integer entry as a value
  pointer is outside the asserted use of the cache and is reported as a failure.
\<close>

definition set_decl_llvm :: "tree \<Rightarrow> llvm_constant option \<Rightarrow> state \<Rightarrow> failure + (llvm_constant option \<times> state)" where
  "set_decl_llvm t V s =
     (if \<not> HAS_RTL_P (trees s t) then Inl (AssertFail ''Expected a declaration with RTL!'')
      else Inr (V, llvm_set_cached t (voidp_of_value V) s))"

definition get_decl_llvm :: "tree \<Rightarrow> state \<Rightarrow> failure + llvm_constant option" where
  "get_decl_llvm t s =
     (if \<not> HAS_RTL_P (trees s t) then Inl (AssertFail ''Expected a declaration with RTL!'')
      else (case llvm_get_cached t s of
              ValuePtr c \<Rightarrow> Inr (Some c)
            | Raw w \<Rightarrow> if w = 0 then Inr None
                       else Inl (AssertFail ''cached integer read as a value'')))"

text \<open>
  \<open>set_decl_index\<close> and \<open>get_decl_index\<close>.  \<open>int\<close> is a 32-bit word read as signed;
  \<open>intptr_t\<close> has 64 bits.  The cast \<open>(intptr_t)\<close> sign-extends, the cast \<open>(int)\<close>
  truncates.
\<close>

definition set_decl_index :: "tree \<Rightarrow> 32 word \<Rightarrow> state \<Rightarrow> failure + (32 word \<times> state)" where
  "set_decl_index t i s =
     (if HAS_RTL_P (trees s t) then Inl (AssertFail ''Expected a declaration without RTL!'')
      else if i <s 0 then Inl (AssertFail ''Negative indices not allowed!'')
      else Inr (i, llvm_set_cached t (Raw (scast (- i - 1))) s))"

definition get_decl_index :: "tree \<Rightarrow> state \<Rightarrow> failure + 32 word" where
  "get_decl_index t s =
     (if HAS_RTL_P (trees s t) then Inl (AssertFail ''Expected a declaration without RTL!'')
      else (case llvm_get_cached t s of
              Raw w \<Rightarrow> Inr (- (1 + ucast w))
            | ValuePtr c \<Rightarrow> Inl (AssertFail ''cached value read as an index'')))"

section \<open>The output module\<close>

text \<open>
  The operations of the LLVM library that the engine calls, on the state above.  Live
  global values are the entries of \<open>globals\<close>; one that was unlinked with
  \<open>removeFromParent\<close> is live but not in the module; \<open>delete\<close> and
  \<open>eraseFromParent\<close> end its life.  Target hooks that are off unless a target defines
  them (\<open>TARGET_ADJUST_LLVM_LINKAGE\<close>, \<open>LLVM_IMPLICIT_TARGET_GLOBAL_VAR_SECTION\<close>,
  \<open>TARGET_ADJUST_CSTRING_ALIGN\<close>), debug information and annotation records are
  left out: they touch none of the components of the state.
\<close>

definition lookup_gv :: "gid \<Rightarrow> state \<Rightarrow> global_value option" where
  "lookup_gv g s = map_of (globals s) g"

definition update_gv :: "gid \<Rightarrow> (global_value \<Rightarrow> global_value) \<Rightarrow> state \<Rightarrow> state" where
  "update_gv g f s =
     s\<lparr>globals := map (\<lambda>(h, v). if h = g then (h, f v) else (h, v)) (globals s)\<rparr>"

definition delete_gv :: "gid \<Rightarrow> state \<Rightarrow> state" where
  "delete_gv g s = s\<lparr>globals := filter (\<lambda>(h, v). h \<noteq> g) (globals s)\<rparr>"

definition fresh_gid :: "state \<Rightarrow> gid" where
  "fresh_gid s = Suc (fold max (map fst (globals s)) 0)"

definition removeFromParent :: "gid \<Rightarrow> state \<Rightarrow> state" where
  "removeFromParent g s = update_gv g (\<lambda>v. v\<lparr>gv_in_module := False\<rparr>) s"

definition eraseFromParent :: "gid \<Rightarrow> state \<Rightarrow> state" where
  "eraseFromParent g s = delete_gv g s"

text \<open>The symbol table: named values of the module.  The empty name is no name.\<close>

definition getNamedValue :: "string \<Rightarrow> state \<Rightarrow> gid option" where
  "getNamedValue n s =
     (if n = [] then None
      else map_option fst (find (\<lambda>(g, v). gv_in_module v \<and> gv_name v = n) (globals s)))"

definition getFunction :: "string \<Rightarrow> state \<Rightarrow> gid option" where
  "getFunction n s =
     (case getNamedValue n s of
        None \<Rightarrow> None
      | Some g \<Rightarrow> (case lookup_gv g s of
                    None \<Rightarrow> None
                  | Some v \<Rightarrow> if gv_kind v = FunctionKind then Some g else None))"

definition getGlobalVariable :: "string \<Rightarrow> state \<Rightarrow> gid option" where
  "getGlobalVariable n s =
     (case getNamedValue n s of
        None \<Rightarrow> None
      | Some g \<Rightarrow> (case lookup_gv g s of
                    None \<Rightarrow> None
                  | Some v \<Rightarrow> if gv_kind v = GlobalVariableKind then Some g else None))"

text \<open>
  A value created under a name that is taken gets another, unused name (the symbol
  table appends a suffix); the engine only tests whether the name it asked for was
  given.
\<close>

definition unique_name :: "string \<Rightarrow> state \<Rightarrow> string" where
  "unique_name n s =
     (if getNamedValue n s = None then n
      else (case find (\<lambda>c. getNamedValue c s = None)
                   (map (\<lambda>k. n @ replicate (Suc k) (CHR ''1'')) [0 ..< Suc (length (globals s))]) of
              Some c \<Rightarrow> c
            | None \<Rightarrow> n @ replicate (Suc (Suc (length (globals s)))) (CHR ''1'')))"

definition new_global :: "value_kind \<Rightarrow> llvm_type \<Rightarrow> bool \<Rightarrow> linkage \<Rightarrow> llvm_constant option \<Rightarrow> string \<Rightarrow> global_value" where
  "new_global k ty isConst l init n =
     \<lparr>gv_kind = k, gv_name = n, gv_elem_type = ty, gv_in_module = True, gv_linkage = l,
      gv_visibility = DefaultVisibility, gv_is_constant = isConst, gv_initializer = init,
      gv_thread_local = False, gv_section = [], gv_alignment = 0, gv_callingconv = 0,
      gv_attributes = [], gv_body = [], gv_aliasee = None\<rparr>"

definition add_global :: "global_value \<Rightarrow> state \<Rightarrow> gid \<times> state" where
  "add_global v s =
     (let g = fresh_gid s
      in (g, s\<lparr>globals := globals s @ [(g, v\<lparr>gv_name := unique_name (gv_name v) s\<rparr>)]\<rparr>))"

definition new_GlobalVariable :: "llvm_type \<Rightarrow> bool \<Rightarrow> linkage \<Rightarrow> llvm_constant option \<Rightarrow> string \<Rightarrow> state \<Rightarrow> gid \<times> state" where
  "new_GlobalVariable ty isConst l init n s =
     add_global (new_global GlobalVariableKind ty isConst l init n) s"

definition Function_Create :: "llvm_type \<Rightarrow> linkage \<Rightarrow> string \<Rightarrow> state \<Rightarrow> gid \<times> state" where
  "Function_Create ty l n s = add_global (new_global FunctionKind ty False l None n) s"

definition new_GlobalAlias :: "llvm_type \<Rightarrow> linkage \<Rightarrow> string \<Rightarrow> llvm_constant \<Rightarrow> state \<Rightarrow> gid \<times> state" where
  "new_GlobalAlias ty l n aliasee s =
     add_global ((new_global GlobalAliasKind ty False l None n)\<lparr>gv_aliasee := Some aliasee\<rparr>) s"

definition takeName :: "gid \<Rightarrow> gid \<Rightarrow> state \<Rightarrow> state" where
  "takeName g other s =
     (case lookup_gv other s of
        None \<Rightarrow> s
      | Some v \<Rightarrow> update_gv g (\<lambda>w. w\<lparr>gv_name := gv_name v\<rparr>)
                    (update_gv other (\<lambda>w. w\<lparr>gv_name := []\<rparr>) s))"

definition isDeclaration :: "global_value \<Rightarrow> bool" where
  "isDeclaration v =
     (case gv_kind v of
        GlobalVariableKind \<Rightarrow> gv_initializer v = None
      | FunctionKind \<Rightarrow> gv_body v = []
      | GlobalAliasKind \<Rightarrow> False)"

definition getWeakLinkage :: "bool \<Rightarrow> linkage" where
  "getWeakLinkage ODR = (if ODR then WeakODRLinkage else WeakAnyLinkage)"

definition getLinkOnceLinkage :: "bool \<Rightarrow> linkage" where
  "getLinkOnceLinkage ODR = (if ODR then LinkOnceODRLinkage else LinkOnceAnyLinkage)"

subsection \<open>Constants and their uses\<close>

definition type_of_constant :: "state \<Rightarrow> llvm_constant \<Rightarrow> llvm_type" where
  "type_of_constant s c =
     (case c of
        GlobalRef g \<Rightarrow> (case lookup_gv g s of
                          Some v \<Rightarrow> PointerTy (gv_elem_type v)
                        | None \<Rightarrow> VoidTy)
      | BitCastExpr d ty \<Rightarrow> ty
      | UndefValue ty \<Rightarrow> ty
      | NullValue ty \<Rightarrow> ty
      | ConstantInt ty i \<Rightarrow> ty
      | ConstantString ty str \<Rightarrow> ty)"

text \<open>The folder's \<open>CreateBitCast\<close>: a cast to the constant's own type is the constant.\<close>

definition CreateBitCast :: "state \<Rightarrow> llvm_constant \<Rightarrow> llvm_type \<Rightarrow> llvm_constant" where
  "CreateBitCast s c ty = (if type_of_constant s c = ty then c else BitCastExpr c ty)"

fun occurs :: "llvm_constant \<Rightarrow> llvm_constant \<Rightarrow> bool" where
  "occurs Old (BitCastExpr d ty) = (BitCastExpr d ty = Old \<or> occurs Old d)"
| "occurs Old c = (c = Old)"

fun replace_constant :: "llvm_constant \<Rightarrow> llvm_constant \<Rightarrow> llvm_constant \<Rightarrow> llvm_constant" where
  "replace_constant Old New (BitCastExpr d ty) =
     (if BitCastExpr d ty = Old then New else BitCastExpr (replace_constant Old New d) ty)"
| "replace_constant Old New c = (if c = Old then New else c)"

fun operand_constants :: "operand \<Rightarrow> llvm_constant list" where
  "operand_constants (ConstOp c ty) = [c]"
| "operand_constants (ArgOp n ty) = []"
| "operand_constants (InstOp n ty) = []"

fun map_operand :: "(llvm_constant \<Rightarrow> llvm_constant) \<Rightarrow> operand \<Rightarrow> operand" where
  "map_operand f (ConstOp c ty) = ConstOp (f c) ty"
| "map_operand f (ArgOp n ty) = ArgOp n ty"
| "map_operand f (InstOp n ty) = InstOp n ty"

fun instruction_operands :: "instruction \<Rightarrow> operand list" where
  "instruction_operands (BitCastInst x ty) = [x]"
| "instruction_operands (GEPInst x y) = [x, y]"
| "instruction_operands (LoadInst x) = [x]"
| "instruction_operands (PtrToIntInst x ty) = [x]"
| "instruction_operands (ICmpEQInst x y) = [x, y]"
| "instruction_operands (CallInst c) = call_callee c # call_args c"
| "instruction_operands (RetInst r) = (case r of None \<Rightarrow> [] | Some x \<Rightarrow> [x])"
| "instruction_operands (CondBrInst x a b) = [x]"

fun map_instruction :: "(operand \<Rightarrow> operand) \<Rightarrow> instruction \<Rightarrow> instruction" where
  "map_instruction f (BitCastInst x ty) = BitCastInst (f x) ty"
| "map_instruction f (GEPInst x y) = GEPInst (f x) (f y)"
| "map_instruction f (LoadInst x) = LoadInst (f x)"
| "map_instruction f (PtrToIntInst x ty) = PtrToIntInst (f x) ty"
| "map_instruction f (ICmpEQInst x y) = ICmpEQInst (f x) (f y)"
| "map_instruction f (CallInst c) =
     CallInst (c\<lparr>call_callee := f (call_callee c), call_args := map f (call_args c)\<rparr>)"
| "map_instruction f (RetInst r) = RetInst (map_option f r)"
| "map_instruction f (CondBrInst x a b) = CondBrInst (f x) a b"

text \<open>The constants a live global value holds as operands: its uses of other values.\<close>

definition body_constants :: "basic_block list \<Rightarrow> llvm_constant list" where
  "body_constants bs =
     concat (map (\<lambda>b. concat (map (\<lambda>(n, i). concat (map operand_constants (instruction_operands i)))
                                (bb_insts b))) bs)"

definition global_operands :: "global_value \<Rightarrow> llvm_constant list" where
  "global_operands v =
     (case gv_initializer v of None \<Rightarrow> [] | Some c \<Rightarrow> [c]) @
     (case gv_aliasee v of None \<Rightarrow> [] | Some c \<Rightarrow> [c]) @
     body_constants (gv_body v)"

definition all_operands :: "state \<Rightarrow> llvm_constant list" where
  "all_operands s = concat (map (\<lambda>(g, v). global_operands v) (globals s))"

definition use_empty :: "llvm_constant \<Rightarrow> state \<Rightarrow> bool" where
  "use_empty Old s = (\<forall>c \<in> set (all_operands s). \<not> occurs Old c)"

definition map_body :: "(llvm_constant \<Rightarrow> llvm_constant) \<Rightarrow> basic_block list \<Rightarrow> basic_block list" where
  "map_body f bs =
     map (\<lambda>b. b\<lparr>bb_insts := map (\<lambda>(n, i). (n, map_instruction (map_operand f) i)) (bb_insts b)\<rparr>) bs"

definition map_global_operands :: "(llvm_constant \<Rightarrow> llvm_constant) \<Rightarrow> global_value \<Rightarrow> global_value" where
  "map_global_operands f v =
     v\<lparr>gv_initializer := map_option f (gv_initializer v),
       gv_aliasee := map_option f (gv_aliasee v),
       gv_body := map_body f (gv_body v)\<rparr>"

text \<open>
  \<open>Old->replaceAllUsesWith(New)\<close>: every operand of a live value that is \<open>Old\<close>
  becomes \<open>New\<close>, also inside a constant expression.  Containers of the engine that
  hold plain pointers are not uses and are not touched.
\<close>

definition replaceAllUsesWith :: "llvm_constant \<Rightarrow> llvm_constant \<Rightarrow> state \<Rightarrow> state" where
  "replaceAllUsesWith Old New s =
     s\<lparr>globals := map (\<lambda>(g, v). (g, map_global_operands (replace_constant Old New) v)) (globals s)\<rparr>"

subsection \<open>Updating the engine's own containers\<close>

text \<open>
  A \<open>SmallSetVector\<close> is a list that holds a value at most once: \<open>insert\<close> appends a
  value that is not there, \<open>remove\<close> takes the value out.
\<close>

definition setvector_insert :: "llvm_constant \<Rightarrow> llvm_constant list \<Rightarrow> llvm_constant list" where
  "setvector_insert c xs = (if c \<in> set xs then xs else xs @ [c])"

definition setvector_remove :: "llvm_constant \<Rightarrow> llvm_constant list \<Rightarrow> llvm_constant list" where
  "setvector_remove c xs = removeAll c xs"

definition replace_first :: "llvm_constant \<Rightarrow> llvm_constant \<Rightarrow> (llvm_constant \<times> int) list \<Rightarrow> (llvm_constant \<times> int) list" where
  "replace_first Old New xs = map (\<lambda>(c, p). if c = Old then (New, p) else (c, p)) xs"

definition changeLLVMConstant :: "llvm_constant \<Rightarrow> llvm_constant \<Rightarrow> state \<Rightarrow> failure + state" where
  "changeLLVMConstant Old New s =
     (if \<not> use_empty Old s then Inl (AssertFail ''Old value has uses!'')
      else
        let s1 = (if Old \<in> set (AttributeUsedGlobals s)
                  then s\<lparr>AttributeUsedGlobals :=
                           setvector_insert New (setvector_remove Old (AttributeUsedGlobals s))\<rparr>
                  else s);
            s2 = (if Old \<in> set (AttributeCompilerUsedGlobals s1)
                  then s1\<lparr>AttributeCompilerUsedGlobals :=
                           setvector_insert New (setvector_remove Old (AttributeCompilerUsedGlobals s1))\<rparr>
                  else s1);
            s3 = s2\<lparr>StaticCtors := replace_first Old New (StaticCtors s2)\<rparr>;
            s4 = s3\<lparr>StaticDtors := replace_first Old New (StaticDtors s3)\<rparr>
        in Inr (llvm_replace_cached Old New s4))"

subsection \<open>Diagnostics\<close>

definition error :: "string \<Rightarrow> state \<Rightarrow> state" where
  "error msg s = s\<lparr>errorcount := Suc (errorcount s), diagnostics := diagnostics s @ [Error msg]\<rparr>"

definition report_sorry :: "string \<Rightarrow> state \<Rightarrow> state" where
  "report_sorry msg s = s\<lparr>sorrycount := Suc (sorrycount s), diagnostics := diagnostics s @ [Sorry msg]\<rparr>"

definition warning :: "string \<Rightarrow> state \<Rightarrow> state" where
  "warning msg s = s\<lparr>diagnostics := diagnostics s @ [Warning msg]\<rparr>"

definition broken_code :: "state \<Rightarrow> bool" where
  "broken_code s = (errorcount s \<noteq> 0 \<or> sorrycount s \<noteq> 0)"

section \<open>Materializing a declaration: \<open>make_decl_llvm\<close>\<close>

text \<open>The macro \<open>SET_DECL_LLVM\<close> of the engine's header.\<close>

definition SET_DECL_LLVM :: "tree \<Rightarrow> llvm_constant option \<Rightarrow> state \<Rightarrow> failure + (llvm_constant option \<times> state)" where
  "SET_DECL_LLVM decl V s = set_decl_llvm decl V s"

definition handleVisibility :: "decl \<Rightarrow> gid \<Rightarrow> state \<Rightarrow> state" where
  "handleVisibility d GV s =
     (if TREE_PUBLIC d \<and> (DECL_VISIBILITY_SPECIFIED d \<or> \<not> DECL_EXTERNAL d) then
        (if DECL_VISIBILITY d = VISIBILITY_HIDDEN
           then update_gv GV (\<lambda>v. v\<lparr>gv_visibility := HiddenVisibility\<rparr>) s
         else if DECL_VISIBILITY d = VISIBILITY_PROTECTED
           then update_gv GV (\<lambda>v. v\<lparr>gv_visibility := ProtectedVisibility\<rparr>) s
         else if DECL_VISIBILITY d = VISIBILITY_DEFAULT
           then update_gv GV (\<lambda>v. v\<lparr>gv_visibility := DefaultVisibility\<rparr>) s
         else s)
      else s)"

text \<open>\<open>cast<...>(V)\<close>: the value must be a live global value of one of the kinds.\<close>

definition cast_global :: "value_kind list \<Rightarrow> llvm_constant option \<Rightarrow> state \<Rightarrow> failure + gid" where
  "cast_global ks V s =
     (case V of
        None \<Rightarrow> Inl (AssertFail ''cast on a null pointer'')
      | Some c \<Rightarrow>
          (case c of
             GlobalRef g \<Rightarrow>
               (case lookup_gv g s of
                  None \<Rightarrow> Inl UseAfterFree
                | Some v \<Rightarrow> if gv_kind v \<in> set ks then Inr g
                            else Inl (AssertFail ''cast argument of incompatible type''))
           | _ \<Rightarrow> Inl (AssertFail ''cast argument of incompatible type'')))"

fun isSized :: "llvm_type \<Rightarrow> bool" where
  "isSized VoidTy = False"
| "isSized (FunctionTy r ps va) = False"
| "isSized (StructTy ts) = list_all isSized ts"
| "isSized (ArrayTy n ty) = isSized ty"
| "isSized ty = True"

definition SizeOfGlobalMatchesDecl :: "global_value \<Rightarrow> decl \<Rightarrow> state \<Rightarrow> bool" where
  "SizeOfGlobalMatchesDecl v d s =
     (case DECL_SIZE d of
        None \<Rightarrow> True
      | Some gcc_size \<Rightarrow>
          let Ty = gv_elem_type v in
          if \<not> isSized Ty then True
          else let Align = 8 * ABITypeAlignment s Ty
               in TypeAllocSizeInBits s Ty = ((gcc_size + Align - 1) div Align) * Align)"

definition extractRegisterName :: "decl \<Rightarrow> failure + string" where
  "extractRegisterName d =
     (case DECL_ASSEMBLER_NAME d of
        None \<Rightarrow> Inl (AssertFail ''null assembler name'')
      | Some Name \<Rightarrow> Inr (if Name \<noteq> [] \<and> hd Name = CHR ''*'' then tl Name else Name))"

definition getLLVMAssemblerName :: "decl \<Rightarrow> string" where
  "getLLVMAssemblerName d =
     (case DECL_ASSEMBLER_NAME d of
        None \<Rightarrow> []
      | Some Name \<Rightarrow> if Name = [] \<or> hd Name \<noteq> CHR ''*'' then Name else CHR 0x01 # tl Name)"

definition ValidateRegisterVariable :: "tree \<Rightarrow> state \<Rightarrow> failure + (bool \<times> state)" where
  "ValidateRegisterVariable decl s =
     (let d = trees s decl in
      case extractRegisterName d of
        Inl e \<Rightarrow> Inl e
      | Inr n \<Rightarrow>
          let RegNumber = decode_reg_name s n in
          if broken_code s then Inr (True, s)
          else if RegNumber = - 1 then
            Inr (True, error ''register name not specified for %q+D'' s)
          else if RegNumber < 0 then
            Inr (True, error ''invalid register name for %q+D'' s)
          else if TYPE_MODE_BLKmode (TREE_TYPE d) then
            Inr (True, error ''data type of %q+D isn%'t suitable for a register'' s)
          else if DECL_INITIAL d \<noteq> None \<and> TREE_STATIC d then
            Inr (True, error ''global register variable has initial value'' s)
          else if AGGREGATE_TYPE_P (TREE_TYPE d) then
            Inr (True, report_sorry ''LLVM cannot handle register variable %q+D, report a bug'' s)
          else if TREE_THIS_VOLATILE d then
            Inr (False, warning ''volatile register variables don%'t work as you might wish'' s)
          else Inr (False, s))"

text \<open>
  The repair used when a new symbol was renamed because its name belongs to a forward
  declaration of the other kind (twice in \<open>make_decl_llvm\<close>, once with
  \<open>getGlobalVariable\<close> and once with \<open>getFunction\<close>): every use of the old symbol
  becomes a cast of the new one, the containers are updated, the new symbol takes the
  name and the old one is erased.
\<close>

definition replace_forward_decl ::
  "(string \<Rightarrow> state \<Rightarrow> gid option) \<Rightarrow> string \<Rightarrow> gid \<Rightarrow> string \<Rightarrow> state \<Rightarrow> failure + state" where
  "replace_forward_decl find_old msg New Name s =
     (case find_old Name s of
        None \<Rightarrow> Inl (AssertFail msg)
      | Some G \<Rightarrow>
          (case lookup_gv G s of
             None \<Rightarrow> Inl UseAfterFree
           | Some v \<Rightarrow>
               if \<not> isDeclaration v then Inl (AssertFail msg)
               else
                 let InNewType = CreateBitCast s (GlobalRef New) (PointerTy (gv_elem_type v));
                     s1 = replaceAllUsesWith (GlobalRef G) InNewType s
                 in (case changeLLVMConstant (GlobalRef G) InNewType s1 of
                       Inl e \<Rightarrow> Inl e
                     | Inr s2 \<Rightarrow> Inr (eraseFromParent G (takeName New G s2)))))"

definition set_external_weak :: "decl \<Rightarrow> gid \<Rightarrow> state \<Rightarrow> state" where
  "set_external_weak d GV s =
     (if DECL_EXTERNAL d \<and> DECL_WEAK d
      then update_gv GV (\<lambda>v. v\<lparr>gv_linkage := ExternalWeakLinkage\<rparr>) s else s)"

text \<open>The branch \<open>if (FnEntry == 0)\<close>: a function of this name does not exist yet.\<close>

definition create_function :: "tree \<Rightarrow> string \<Rightarrow> state \<Rightarrow> failure + (gid \<times> state)" where
  "create_function decl Name s =
     (let d = trees s decl in
      case ConvertFunctionType d of
        (Ty, CC, PAL) \<Rightarrow>
          (case Function_Create Ty ExternalLinkage Name s of
             (FnEntry, s1) \<Rightarrow>
               let s2 = update_gv FnEntry (\<lambda>v. v\<lparr>gv_callingconv := CC, gv_attributes := PAL\<rparr>) s1;
                   s3 = set_external_weak d FnEntry s2;
                   s4 = handleVisibility d FnEntry s3
               in (case lookup_gv FnEntry s4 of
                     None \<Rightarrow> Inl UseAfterFree
                   | Some v \<Rightarrow>
                       if gv_name v \<noteq> Name then
                         (case replace_forward_decl getGlobalVariable
                                 ''A global turned into a function?'' FnEntry Name s4 of
                            Inl e \<Rightarrow> Inl e
                          | Inr s5 \<Rightarrow> Inr (FnEntry, s5))
                       else Inr (FnEntry, s4))))"

definition make_decl_llvm_function :: "tree \<Rightarrow> string \<Rightarrow> state \<Rightarrow> failure + (llvm_constant option \<times> state)" where
  "make_decl_llvm_function decl Name s =
     (if Name = [] then Inl (AssertFail ''Function with empty name!'')
      else
        (case getFunction Name s of
           Some FnEntry \<Rightarrow> SET_DECL_LLVM decl (Some (GlobalRef FnEntry)) s
         | None \<Rightarrow>
             (case create_function decl Name s of
                Inl e \<Rightarrow> Inl e
              | Inr (FnEntry, s1) \<Rightarrow> SET_DECL_LLVM decl (Some (GlobalRef FnEntry)) s1)))"

text \<open>The global variable for the declaration: a new one, or the one of this name.\<close>

definition create_variable :: "tree \<Rightarrow> string \<Rightarrow> llvm_type \<Rightarrow> state \<Rightarrow> failure + (gid \<times> state)" where
  "create_variable decl Name Ty s =
     (let d = trees s decl in
      if Name = [] then
        (case new_GlobalVariable Ty False ExternalLinkage None [] s of
           (GV, s1) \<Rightarrow> Inr (GV, handleVisibility d GV (set_external_weak d GV s1)))
      else
        (case getGlobalVariable Name s of
           Some GVE \<Rightarrow> Inr (GVE, s)
         | None \<Rightarrow>
             (case new_GlobalVariable Ty False ExternalLinkage None Name s of
                (GV, s1) \<Rightarrow>
                  let s2 = handleVisibility d GV (set_external_weak d GV s1) in
                  (case lookup_gv GV s2 of
                     None \<Rightarrow> Inl UseAfterFree
                   | Some v \<Rightarrow>
                       if gv_name v \<noteq> Name then
                         (case replace_forward_decl getFunction
                                 ''A function turned into a global?'' GV Name s2 of
                            Inl e \<Rightarrow> Inl e
                          | Inr s3 \<Rightarrow> Inr (GV, s3))
                       else Inr (GV, s2)))))"

text \<open>The readonly classification and the thread-local flag.\<close>

definition mark_constant :: "decl \<Rightarrow> gid \<Rightarrow> state \<Rightarrow> state" where
  "mark_constant d GV s =
     (if (TREE_READONLY d \<and> \<not> TREE_SIDE_EFFECTS d) \<or> TREE_CODE d = CONST_DECL then
        (if DECL_EXTERNAL d then update_gv GV (\<lambda>v. v\<lparr>gv_is_constant := True\<rparr>) s
         else
           (case DECL_INITIAL d of
              None \<Rightarrow> s
            | Some i \<Rightarrow>
                if i \<noteq> error_mark_node \<and> (TREE_CONSTANT i \<or> is_STRING_CST i)
                then update_gv GV (\<lambda>v. v\<lparr>gv_is_constant := True\<rparr>) s
                else s))
      else s)"

definition mark_thread_local :: "decl \<Rightarrow> gid \<Rightarrow> state \<Rightarrow> state" where
  "mark_thread_local d GV s =
     (if TREE_CODE d = VAR_DECL \<and> DECL_THREAD_LOCAL_P d
      then update_gv GV (\<lambda>v. v\<lparr>gv_thread_local := True\<rparr>) s else s)"

definition make_decl_llvm_variable :: "tree \<Rightarrow> string \<Rightarrow> state \<Rightarrow> failure + (llvm_constant option \<times> state)" where
  "make_decl_llvm_variable decl Name s =
     (let d = trees s decl in
      if TREE_CODE d \<noteq> VAR_DECL \<and> TREE_CODE d \<noteq> CONST_DECL
        then Inl (AssertFail ''Not a function or var decl?'')
      else
        let Ty0 = ConvertType (TREE_TYPE d);
            Ty = (if Ty0 = VoidTy then StructTy [] else Ty0)
        in (case create_variable decl Name Ty s of
              Inl e \<Rightarrow> Inl e
            | Inr (GV, s1) \<Rightarrow>
                let s3 = mark_thread_local d GV (mark_constant d GV s1)
                in (case lookup_gv GV s3 of
                      None \<Rightarrow> Inl UseAfterFree
                    | Some v \<Rightarrow>
                        if \<not> (isDeclaration v \<or> SizeOfGlobalMatchesDecl v d s3)
                          then Inl (AssertFail ''Global has unexpected initializer!'')
                        else SET_DECL_LLVM decl (Some (GlobalRef GV)) s3)))"

text \<open>
  The two checks before a symbol is created: a register name given to a variable that
  is not a register variable (only where the target has a \<open>REGISTER_PREFIX\<close>), and the
  rules that switch \<open>DECL_COMMON\<close> off.
\<close>

definition register_name_check :: "string \<Rightarrow> state \<Rightarrow> state" where
  "register_name_check Name s =
     (if Name \<noteq> [] \<and> hd Name = CHR 0x01 then
        (case REGISTER_PREFIX s of
           None \<Rightarrow> s
         | Some prefix \<Rightarrow>
             if prefix \<noteq> [] \<and> (decode_reg_name s Name \<ge> 0 \<or> decode_reg_name s Name = - 3)
             then error ''register name given for non-register variable %q+D'' s
             else s)
      else s)"

definition clear_DECL_COMMON :: "tree \<Rightarrow> state \<Rightarrow> state" where
  "clear_DECL_COMMON decl s = s\<lparr>trees := (trees s)(decl := (trees s decl)\<lparr>DECL_COMMON := False\<rparr>)\<rparr>"

definition adjust_common :: "tree \<Rightarrow> state \<Rightarrow> state" where
  "adjust_common decl s =
     (let d = trees s decl;
          s1 = (if TREE_CODE d = VAR_DECL \<and> DECL_SECTION_NAME d \<noteq> None \<and>
                   DECL_INITIAL d = None \<and> DECL_COMMON d
                then clear_DECL_COMMON decl s else s)
      in if TREE_CODE d = VAR_DECL \<and> DECL_WEAK d then clear_DECL_COMMON decl s1 else s1)"

definition make_decl_llvm :: "tree \<Rightarrow> state \<Rightarrow> failure + (llvm_constant option \<times> state)" where
  "make_decl_llvm decl s =
     (case get_decl_llvm decl s of
        Inl e \<Rightarrow> Inl e
      | Inr (Some V) \<Rightarrow> Inr (Some V, s)
      | Inr None \<Rightarrow>
          let d = trees s decl in
          if ENABLE_CHECKING s \<and>
             (TREE_CODE d = PARM_DECL \<or> TREE_CODE d = RESULT_DECL \<or>
              (TREE_CODE d = VAR_DECL \<and> \<not> TREE_STATIC d \<and> \<not> TREE_PUBLIC d \<and>
               \<not> DECL_EXTERNAL d \<and> \<not> DECL_REGISTER d))
            then Inl Abort
          else if ENABLE_CHECKING s \<and> (TREE_CODE d = TYPE_DECL \<or> TREE_CODE d = LABEL_DECL)
            then Inl Abort
          else if broken_code s then Inr (None, s)
          else if TREE_CODE d \<noteq> FUNCTION_DECL \<and> DECL_REGISTER d then
            (case ValidateRegisterVariable decl s of
               Inl e \<Rightarrow> Inl e
             | Inr (b, s1) \<Rightarrow> Inr (None, s1))
          else
            let Name = (if TREE_CODE d \<noteq> CONST_DECL then getLLVMAssemblerName d else []);
                s1 = adjust_common decl (register_name_check Name s)
            in if TREE_CODE d = FUNCTION_DECL then make_decl_llvm_function decl Name s1
               else make_decl_llvm_variable decl Name s1)"

text \<open>The macro \<open>DECL_LLVM\<close> of the engine's header.\<close>

definition DECL_LLVM :: "tree \<Rightarrow> state \<Rightarrow> failure + (llvm_constant option \<times> state)" where
  "DECL_LLVM decl s = make_decl_llvm decl s"

section \<open>Emitting a global variable: \<open>emit_global\<close>\<close>

text \<open>
  \<open>getDefaultValue\<close> follows \<open>flag_default_initialize_globals\<close>: a zero value when
  globals with no explicit initial value are zero initialized, an undefined one
  otherwise.
\<close>

definition getDefaultValue :: "llvm_type \<Rightarrow> state \<Rightarrow> llvm_constant" where
  "getDefaultValue Ty s = (if flag_default_initialize_globals s then NullValue Ty else UndefValue Ty)"

definition setInitializer :: "gid \<Rightarrow> llvm_constant \<Rightarrow> state \<Rightarrow> state" where
  "setInitializer GV Init s = update_gv GV (\<lambda>v. v\<lparr>gv_initializer := Some Init\<rparr>) s"

text \<open>
  The repair of a forward definition whose type disagrees with the initializer: the
  block \<open>if (GV->getType()->getElementType() != Init->getType())\<close>.  It returns the
  symbol that stands for the declaration afterwards.
\<close>

definition emit_global_retype :: "tree \<Rightarrow> gid \<Rightarrow> llvm_constant \<Rightarrow> state \<Rightarrow> failure + (gid \<times> state)" where
  "emit_global_retype decl GV Init s =
     (case lookup_gv GV s of
        None \<Rightarrow> Inl UseAfterFree
      | Some v \<Rightarrow>
          if gv_elem_type v \<noteq> type_of_constant s Init then
            (let s1 = removeFromParent GV s in
             case new_GlobalVariable (type_of_constant s Init) (gv_is_constant v)
                    ExternalLinkage None (gv_name v) s1 of
               (NGV, s2) \<Rightarrow>
                 let s3 = replaceAllUsesWith (GlobalRef GV)
                            (CreateBitCast s2 (GlobalRef NGV) (PointerTy (gv_elem_type v))) s2
                 in (case changeLLVMConstant (GlobalRef GV) (GlobalRef NGV) s3 of
                       Inl e \<Rightarrow> Inl e
                     | Inr s4 \<Rightarrow>
                         (case SET_DECL_LLVM decl (Some (GlobalRef NGV)) (delete_gv GV s4) of
                            Inl e \<Rightarrow> Inl e
                          | Inr (V, s5) \<Rightarrow> Inr (NGV, s5))))
          else Inr (GV, s))"

text \<open>
  The linkage of the global, from the flags of the declaration, the constness and the
  current linkage of the symbol.  The two leading tests of the source are switched off
  there (\<open>&& false\<close>) and kept as such.
\<close>

definition emit_global_linkage :: "decl \<Rightarrow> global_value \<Rightarrow> state \<Rightarrow> linkage" where
  "emit_global_linkage d v s =
     (let Linkage =
        (if False then PrivateLinkage
         else if False then LinkerPrivateLinkage
         else if \<not> TREE_PUBLIC d then InternalLinkage
         else if DECL_WEAK d then WeakAnyLinkage
         else if DECL_ONE_ONLY d then getWeakLinkage (flag_odr s)
         else if DECL_COMMON d \<and> (DECL_INITIAL d = None \<or> DECL_INITIAL d = Some error_mark_node)
           then CommonLinkage
         else if DECL_COMDAT d then getLinkOnceLinkage (flag_odr s)
         else gv_linkage v)
      in if gv_is_constant v then
           (if Linkage = WeakAnyLinkage then WeakODRLinkage
            else if Linkage = LinkOnceAnyLinkage then LinkOnceODRLinkage
            else Linkage)
         else Linkage)"

text \<open>Section, alignment and the \<open>used\<close> root set, for a \<open>VAR_DECL\<close>.\<close>

definition set_section :: "decl \<Rightarrow> gid \<Rightarrow> state \<Rightarrow> state" where
  "set_section d GV s =
     (case DECL_SECTION_NAME d of
        Some n \<Rightarrow> update_gv GV (\<lambda>w. w\<lparr>gv_section := n\<rparr>) s
      | None \<Rightarrow> s)"

definition set_alignment :: "decl \<Rightarrow> gid \<Rightarrow> llvm_type \<Rightarrow> state \<Rightarrow> state" where
  "set_alignment d GV ElemTy s =
     (if DECL_ALIGN d \<noteq> 0 then
        (let TargetAlign = ABITypeAlignment s ElemTy in
         if DECL_USER_ALIGN d \<or> 8 * TargetAlign < DECL_ALIGN d
         then update_gv GV (\<lambda>w. w\<lparr>gv_alignment := DECL_ALIGN d div 8\<rparr>) s
         else s)
      else s)"

definition handle_used :: "decl \<Rightarrow> gid \<Rightarrow> state \<Rightarrow> state" where
  "handle_used d GV s =
     (if DECL_PRESERVE_P d then
        (if False
         then s\<lparr>AttributeCompilerUsedGlobals :=
                 setvector_insert (GlobalRef GV) (AttributeCompilerUsedGlobals s)\<rparr>
         else s\<lparr>AttributeUsedGlobals := setvector_insert (GlobalRef GV) (AttributeUsedGlobals s)\<rparr>)
      else s)"

definition var_decl_attributes :: "decl \<Rightarrow> gid \<Rightarrow> llvm_type \<Rightarrow> state \<Rightarrow> state" where
  "var_decl_attributes d GV ElemTy s =
     (if TREE_CODE d = VAR_DECL
      then handle_used d GV (set_alignment d GV ElemTy (set_section d GV s))
      else s)"

definition mark_written :: "tree \<Rightarrow> state \<Rightarrow> state" where
  "mark_written decl s = s\<lparr>trees := (trees s)(decl := (trees s decl)\<lparr>TREE_ASM_WRITTEN := True\<rparr>)\<rparr>"

text \<open>Everything after the initializer is set: the rest of \<open>emit_global\<close>.\<close>

definition emit_global_finish :: "tree \<Rightarrow> gid \<Rightarrow> state \<Rightarrow> failure + state" where
  "emit_global_finish decl GV s =
     (let d = trees s decl;
          s1 = mark_thread_local d GV s
      in case lookup_gv GV s1 of
           None \<Rightarrow> Inl UseAfterFree
         | Some v \<Rightarrow>
             let s2 = update_gv GV (\<lambda>w. w\<lparr>gv_linkage := emit_global_linkage d v s1\<rparr>) s1;
                 s3 = handleVisibility d GV s2;
                 s4 = var_decl_attributes d GV (gv_elem_type v) s3
             in (case lookup_gv GV s4 of
                   None \<Rightarrow> Inl UseAfterFree
                 | Some w \<Rightarrow>
                     if \<not> SizeOfGlobalMatchesDecl w d s4 then Inl (AssertFail ''Global has wrong size!'')
                     else Inr (mark_written decl s4)))"

text \<open>
  \<open>make_definition_llvm\<close>, with the call of \<open>emit_global\<close> it makes as a parameter.
\<close>

definition make_definition_llvm_step ::
  "(tree \<Rightarrow> state \<Rightarrow> failure + state) \<Rightarrow> tree \<Rightarrow> state \<Rightarrow> failure + (llvm_constant option \<times> state)" where
  "make_definition_llvm_step emit decl s =
     (let d = trees s decl in
      if TREE_CODE d \<noteq> CONST_DECL \<and> TREE_CODE d \<noteq> VAR_DECL then DECL_LLVM decl s
      else if DECL_EXTERNAL d then DECL_LLVM decl s
      else if \<not> TREE_STATIC d then
        (if DECL_INITIAL d \<noteq> None then Inl (AssertFail ''Non-static global has initial value!'')
         else DECL_LLVM decl s)
      else
        (case DECL_LLVM decl s of
           Inl e \<Rightarrow> Inl e
         | Inr (V, s1) \<Rightarrow>
             (case cast_global [GlobalVariableKind, FunctionKind, GlobalAliasKind] V s1 of
                Inl e \<Rightarrow> Inl e
              | Inr GV \<Rightarrow>
                  (case lookup_gv GV s1 of
                     None \<Rightarrow> Inl UseAfterFree
                   | Some v \<Rightarrow>
                       if \<not> isDeclaration v then Inr (Some (GlobalRef GV), s1)
                       else (case emit decl s1 of
                               Inl e \<Rightarrow> Inl e
                             | Inr s2 \<Rightarrow> DECL_LLVM decl s2)))))"

text \<open>
  Modelled from the spec: the initializer conversion service \<open>ConvertInitializer\<close> is
  not in Backend.cpp.  By section 6 it turns an initial value into a constant and may
  call back into the engine for references to declarations: the address of a
  declaration is the symbol of its definition (\<open>DEFINITION_LLVM\<close>), cast to the type
  of the expression.
\<close>

definition ConvertInitializer_step ::
  "(tree \<Rightarrow> state \<Rightarrow> failure + state) \<Rightarrow> initial \<Rightarrow> state \<Rightarrow> failure + (llvm_constant \<times> state)" where
  "ConvertInitializer_step emit i s =
     (case i of
        INTEGER_CST ty n \<Rightarrow> Inr (ConstantInt (ConvertType ty) n, s)
      | STRING_CST ty str \<Rightarrow> Inr (ConstantString (ConvertType ty) str, s)
      | ADDR_EXPR ty t \<Rightarrow>
          (case make_definition_llvm_step emit t s of
             Inl e \<Rightarrow> Inl e
           | Inr (V, s1) \<Rightarrow>
               (case V of
                  None \<Rightarrow> Inl (AssertFail ''cast on a null pointer'')
                | Some c \<Rightarrow> Inr (CreateBitCast s1 c (ConvertType ty), s1)))
      | error_mark_node \<Rightarrow> Inl (AssertFail ''not a constant'')
      | NON_CONSTANT_EXPR ty \<Rightarrow> Inl (AssertFail ''not a constant''))"

definition emit_global_step :: "(tree \<Rightarrow> state \<Rightarrow> failure + state) \<Rightarrow> tree \<Rightarrow> state \<Rightarrow> failure + state" where
  "emit_global_step emit decl s =
     (if TREE_CODE (trees s decl) = VAR_DECL \<and> DECL_REGISTER (trees s decl) then Inr s
      else if TYPE_SIZE (TREE_TYPE (trees s decl)) = None then Inr s
      else
        (case DECL_LLVM decl s of
           Inl e \<Rightarrow> Inl e
         | Inr (V, s1) \<Rightarrow>
             (case cast_global [GlobalVariableKind] V s1 of
                Inl e \<Rightarrow> Inl e
              | Inr GV \<Rightarrow>
                  let d = trees s1 decl;
                      converted =
                        (if DECL_INITIAL d = None \<or> DECL_INITIAL d = Some error_mark_node
                         then Inr (getDefaultValue (ConvertType (TREE_TYPE d)) s1, s1)
                         else
                           (case DECL_INITIAL d of
                              None \<Rightarrow> Inl (AssertFail ''no initial value'')
                            | Some i \<Rightarrow>
                                if \<not> (TREE_CONSTANT i \<or> is_STRING_CST i)
                                  then Inl (AssertFail ''Global initializer should be constant!'')
                                else
                                  (case lookup_gv GV s1 of
                                     None \<Rightarrow> Inl UseAfterFree
                                   | Some v \<Rightarrow>
                                       ConvertInitializer_step emit i
                                         (setInitializer GV (UndefValue (gv_elem_type v)) s1))))
                  in (case converted of
                        Inl e \<Rightarrow> Inl e
                      | Inr (Init, s2) \<Rightarrow>
                          (case emit_global_retype decl GV Init s2 of
                             Inl e \<Rightarrow> Inl e
                           | Inr (GV', s3) \<Rightarrow>
                               emit_global_finish decl GV' (setInitializer GV' Init s3))))))"

text \<open>
  \<open>emit_global\<close>, \<open>make_definition_llvm\<close> and \<open>ConvertInitializer\<close> call each other.
  The first argument bounds the depth of nested calls of \<open>emit_global\<close>.
\<close>

fun emit_global :: "nat \<Rightarrow> tree \<Rightarrow> state \<Rightarrow> failure + state" where
  "emit_global 0 decl s = Inl OutOfFuel"
| "emit_global (Suc n) decl s = emit_global_step (emit_global n) decl s"

definition make_definition_llvm :: "nat \<Rightarrow> tree \<Rightarrow> state \<Rightarrow> failure + (llvm_constant option \<times> state)" where
  "make_definition_llvm n decl s = make_definition_llvm_step (emit_global n) decl s"

definition ConvertInitializer :: "nat \<Rightarrow> initial \<Rightarrow> state \<Rightarrow> failure + (llvm_constant \<times> state)" where
  "ConvertInitializer n i s = ConvertInitializer_step (emit_global n) i s"

definition DEFINITION_LLVM :: "nat \<Rightarrow> tree \<Rightarrow> state \<Rightarrow> failure + (llvm_constant option \<times> state)" where
  "DEFINITION_LLVM n decl s = make_definition_llvm n decl s"

section \<open>Aliases: \<open>emit_alias\<close>\<close>

definition GetLinkageForAlias :: "decl \<Rightarrow> state \<Rightarrow> linkage" where
  "GetLinkageForAlias d s =
     (if DECL_COMDAT d then InternalLinkage
      else if DECL_ONE_ONLY d then getWeakLinkage (flag_odr s)
      else if DECL_WEAK d then WeakAnyLinkage
      else if \<not> TREE_PUBLIC d then InternalLinkage
      else if DECL_EXTERNAL d then InternalLinkage
      else ExternalLinkage)"

text \<open>
  The target of an alias is a name or a declaration.  A name that is a
  transparent alias (\<open>IDENTIFIER_TRANSPARENT_ALIAS\<close>) carries the name it stands
  for (\<open>TREE_CHAIN\<close>); such chains are finite.
\<close>

datatype ident_node = IDENTIFIER_NODE string "ident_node option"

datatype target_tree = TargetIdentifier ident_node | TargetDecl tree

fun IDENTIFIER_POINTER :: "ident_node \<Rightarrow> string" where
  "IDENTIFIER_POINTER (IDENTIFIER_NODE n c) = n"

fun follow_transparent_alias :: "ident_node \<Rightarrow> ident_node" where
  "follow_transparent_alias (IDENTIFIER_NODE n None) = IDENTIFIER_NODE n None"
| "follow_transparent_alias (IDENTIFIER_NODE n (Some next)) = follow_transparent_alias next"

definition lookup_attribute :: "string \<Rightarrow> string list \<Rightarrow> bool" where
  "lookup_attribute n attrs = (n \<in> set attrs)"

text \<open>The target after the two resolution steps at the head of \<open>emit_alias\<close>.\<close>

definition resolve_alias_target :: "bool \<Rightarrow> target_tree \<Rightarrow> state \<Rightarrow> target_tree" where
  "resolve_alias_target weakref target s =
     (let target1 =
            (case target of
               TargetIdentifier i \<Rightarrow>
                 if weakref then TargetIdentifier (follow_transparent_alias i) else target
             | TargetDecl t \<Rightarrow> target)
      in case target1 of
           TargetIdentifier i \<Rightarrow>
             (case cgraph_node_for_asm s (IDENTIFIER_POINTER i) of
                Some fdecl \<Rightarrow> TargetDecl fdecl
              | None \<Rightarrow>
                  (case varpool_node_for_asm s (IDENTIFIER_POINTER i) of
                     Some vdecl \<Rightarrow> TargetDecl vdecl
                   | None \<Rightarrow> target1))
         | TargetDecl t \<Rightarrow> target1)"

text \<open>The tail of \<open>emit_alias\<close>, once the aliasee is known.\<close>

definition emit_alias_finish :: "tree \<Rightarrow> gid \<Rightarrow> gid \<Rightarrow> state \<Rightarrow> failure + state" where
  "emit_alias_finish decl V Aliasee s =
     (let d = trees s decl; Linkage = GetLinkageForAlias d s in
      case (lookup_gv V s, lookup_gv Aliasee s) of
        (Some v, Some a) \<Rightarrow>
          let redirected =
                (if Linkage \<noteq> InternalLinkage then
                   (case new_GlobalAlias (gv_elem_type a) Linkage [] (GlobalRef Aliasee) s of
                      (GA, s1) \<Rightarrow>
                        let s2 = handleVisibility d GA s1;
                            s3 = replaceAllUsesWith (GlobalRef V)
                                   (CreateBitCast s2 (GlobalRef GA) (PointerTy (gv_elem_type v))) s2
                        in (case changeLLVMConstant (GlobalRef V) (GlobalRef GA) s3 of
                              Inl e \<Rightarrow> Inl e
                            | Inr s4 \<Rightarrow> Inr (takeName GA V s4)))
                 else
                   (let s1 = replaceAllUsesWith (GlobalRef V)
                               (CreateBitCast s (GlobalRef Aliasee) (PointerTy (gv_elem_type v))) s
                    in changeLLVMConstant (GlobalRef V) (GlobalRef Aliasee) s1))
          in (case redirected of
                Inl e \<Rightarrow> Inl e
              | Inr s5 \<Rightarrow>
                  let s6 = eraseFromParent V s5
                  in Inr (mark_written decl s6))
      | _ \<Rightarrow> Inl UseAfterFree)"

definition emit_alias :: "nat \<Rightarrow> tree \<Rightarrow> target_tree \<Rightarrow> state \<Rightarrow> failure + state" where
  "emit_alias n decl target s =
     (if broken_code s then Inr s
      else
        (case DECL_LLVM decl s of
           Inl e \<Rightarrow> Inl e
         | Inr (V0, s1) \<Rightarrow>
             (case cast_global [GlobalVariableKind, FunctionKind, GlobalAliasKind] V0 s1 of
                Inl e \<Rightarrow> Inl e
              | Inr V \<Rightarrow>
                  let weakref = lookup_attribute ''weakref'' (DECL_ATTRIBUTES (trees s1 decl)) in
                  (case resolve_alias_target weakref target s1 of
                     TargetIdentifier i \<Rightarrow>
                       if \<not> weakref then
                         Inr (error ''%q+D aliased to undefined symbol %qs'' s1)
                       else
                         (case lookup_gv V s1 of
                            None \<Rightarrow> Inl UseAfterFree
                          | Some v \<Rightarrow>
                              if gv_kind v = GlobalVariableKind then
                                (case new_GlobalVariable (PointerTy (gv_elem_type v)) (gv_is_constant v)
                                        ExternalWeakLinkage None (IDENTIFIER_POINTER i) s1 of
                                   (Aliasee, s2) \<Rightarrow> emit_alias_finish decl V Aliasee s2)
                              else if gv_kind v = FunctionKind then
                                (case Function_Create (gv_elem_type v) ExternalWeakLinkage
                                        (IDENTIFIER_POINTER i) s1 of
                                   (Aliasee, s2) \<Rightarrow> emit_alias_finish decl V Aliasee s2)
                              else Inl (AssertFail ''Unsuported global value''))
                   | TargetDecl t \<Rightarrow>
                       (case DEFINITION_LLVM n t s1 of
                          Inl e \<Rightarrow> Inl e
                        | Inr (A0, s2) \<Rightarrow>
                            (case cast_global [GlobalVariableKind, FunctionKind, GlobalAliasKind] A0 s2 of
                               Inl e \<Rightarrow> Inl e
                             | Inr Aliasee \<Rightarrow> emit_alias_finish decl V Aliasee s2))))))"

section \<open>Thunks: \<open>emit_thunk\<close>\<close>

record thunk_info =
  this_adjusting :: bool
  fixed_offset :: int
  virtual_offset_p :: bool
  virtual_value :: int
  thunk_alias :: tree

record cgraph_node =
  node_decl :: tree
  node_thunk :: thunk_info

subsection \<open>The instruction builder\<close>

text \<open>
  The builder appends instructions to the block it points at and numbers the values
  they define.  A cast to the operand's own type is the operand; a cast of a constant
  is folded into a constant.  The pointer operand of the other instructions built
  here is never a constant (it comes from an argument or from the call), so they are
  always inserted.
\<close>

record builder =
  b_blocks :: "basic_block list"
  b_insert :: nat
  b_next :: nat

definition BytePtrTy :: llvm_type where
  "BytePtrTy = PointerTy (IntTy 8)"

definition HandleTy :: llvm_type where
  "HandleTy = PointerTy BytePtrTy"

definition IntPtrTy :: llvm_type where
  "IntPtrTy = IntTy 64"

fun operand_type :: "operand \<Rightarrow> llvm_type" where
  "operand_type (ConstOp c ty) = ty"
| "operand_type (ArgOp n ty) = ty"
| "operand_type (InstOp n ty) = ty"

fun pointee :: "llvm_type \<Rightarrow> llvm_type" where
  "pointee (PointerTy ty) = ty"
| "pointee ty = VoidTy"

fun isPointerTy :: "llvm_type \<Rightarrow> bool" where
  "isPointerTy (PointerTy ty) = True"
| "isPointerTy ty = False"

definition BasicBlock_Create :: "string \<Rightarrow> builder \<Rightarrow> nat \<times> builder" where
  "BasicBlock_Create n b =
     (length (b_blocks b), b\<lparr>b_blocks := b_blocks b @ [\<lparr>bb_name = n, bb_insts = []\<rparr>]\<rparr>)"

definition SetInsertPoint :: "nat \<Rightarrow> builder \<Rightarrow> builder" where
  "SetInsertPoint k b = b\<lparr>b_insert := k\<rparr>"

definition Insert :: "instruction \<Rightarrow> llvm_type \<Rightarrow> builder \<Rightarrow> operand \<times> builder" where
  "Insert i ty b =
     (InstOp (b_next b) ty,
      b\<lparr>b_blocks := map (\<lambda>(k, blk). if k = b_insert b
                                      then blk\<lparr>bb_insts := bb_insts blk @ [(b_next b, i)]\<rparr>
                                      else blk)
                        (zip [0 ..< length (b_blocks b)] (b_blocks b)),
        b_next := Suc (b_next b)\<rparr>)"

definition Builder_CreateBitCast :: "operand \<Rightarrow> llvm_type \<Rightarrow> builder \<Rightarrow> operand \<times> builder" where
  "Builder_CreateBitCast V DestTy b =
     (if operand_type V = DestTy then (V, b)
      else (case V of
              ConstOp c ty \<Rightarrow> (ConstOp (BitCastExpr c DestTy) DestTy, b)
            | _ \<Rightarrow> Insert (BitCastInst V DestTy) DestTy b))"

definition Builder_CreateInBoundsGEP :: "operand \<Rightarrow> operand \<Rightarrow> builder \<Rightarrow> operand \<times> builder" where
  "Builder_CreateInBoundsGEP Ptr Idx b = Insert (GEPInst Ptr Idx) (operand_type Ptr) b"

definition Builder_CreateLoad :: "operand \<Rightarrow> builder \<Rightarrow> operand \<times> builder" where
  "Builder_CreateLoad Ptr b = Insert (LoadInst Ptr) (pointee (operand_type Ptr)) b"

definition Builder_CreatePtrToInt :: "operand \<Rightarrow> llvm_type \<Rightarrow> builder \<Rightarrow> operand \<times> builder" where
  "Builder_CreatePtrToInt V DestTy b =
     (if operand_type V = DestTy then (V, b) else Insert (PtrToIntInst V DestTy) DestTy b)"

definition Builder_CreateICmpEQ :: "operand \<Rightarrow> operand \<Rightarrow> builder \<Rightarrow> operand \<times> builder" where
  "Builder_CreateICmpEQ L R b = Insert (ICmpEQInst L R) (IntTy 1) b"

definition Builder_CreateRet :: "operand \<Rightarrow> builder \<Rightarrow> builder" where
  "Builder_CreateRet V b = snd (Insert (RetInst (Some V)) VoidTy b)"

definition Builder_CreateRetVoid :: "builder \<Rightarrow> builder" where
  "Builder_CreateRetVoid b = snd (Insert (RetInst None) VoidTy b)"

definition Builder_CreateCondBr :: "operand \<Rightarrow> string \<Rightarrow> string \<Rightarrow> builder \<Rightarrow> builder" where
  "Builder_CreateCondBr c yes no b = snd (Insert (CondBrInst c yes no) VoidTy b)"

subsection \<open>The adjustments\<close>

definition ApplyVirtualOffset :: "operand \<Rightarrow> int \<Rightarrow> builder \<Rightarrow> operand \<times> builder" where
  "ApplyVirtualOffset This vv b =
     (let (VPtr, b1) = Builder_CreateBitCast This (PointerTy HandleTy) b;
          (VTableAddr, b2) = Builder_CreateLoad VPtr b1;
          VOffset = ConstOp (ConstantInt IntPtrTy vv) IntPtrTy;
          (VTableAddr1, b3) = Builder_CreateBitCast VTableAddr BytePtrTy b2;
          (VTableAddr2, b4) = Builder_CreateInBoundsGEP VTableAddr1 VOffset b3;
          (VTableAddr3, b5) = Builder_CreateBitCast VTableAddr2 HandleTy b4;
          (VCallOffset, b6) = Builder_CreateLoad VTableAddr3 b5;
          (VCallOffset1, b7) = Builder_CreatePtrToInt VCallOffset IntPtrTy b6;
          (Adjusted, b8) = Builder_CreateBitCast This BytePtrTy b7;
          (Adjusted1, b9) = Builder_CreateInBoundsGEP Adjusted VCallOffset1 b8
      in Builder_CreateBitCast Adjusted1 (operand_type This) b9)"

text \<open>The fixed offset step, written twice in \<open>emit_thunk\<close>; \<open>ty\<close> is the type cast back to.\<close>

definition apply_fixed_offset :: "int \<Rightarrow> operand \<Rightarrow> llvm_type \<Rightarrow> builder \<Rightarrow> operand \<times> builder" where
  "apply_fixed_offset off V ty b =
     (if off \<noteq> 0 then
        (let Offset = ConstOp (ConstantInt IntPtrTy off) IntPtrTy;
             (V1, b1) = Builder_CreateBitCast V BytePtrTy b;
             (V2, b2) = Builder_CreateInBoundsGEP V1 Offset b1
         in Builder_CreateBitCast V2 ty b2)
      else (V, b))"

text \<open>
  The loop over the arguments of the thunk.  An argument is its position, its type and
  its \<open>sret\<close> and \<open>nest\<close> attributes.
\<close>

fun thunk_arguments ::
  "thunk_info \<Rightarrow> (nat \<times> llvm_type \<times> bool \<times> bool) list \<Rightarrow> bool \<Rightarrow> builder \<Rightarrow>
     failure + (operand list \<times> builder)" where
  "thunk_arguments th [] FoundThis b = Inr ([], b)"
| "thunk_arguments th ((k, ty, sret, nest) # rest) FoundThis b =
     (if FoundThis \<or> sret \<or> nest then
        (case thunk_arguments th rest FoundThis b of
           Inl e \<Rightarrow> Inl e
         | Inr (Arguments, b') \<Rightarrow> Inr (ArgOp k ty # Arguments, b'))
      else if \<not> isPointerTy ty then Inl (AssertFail ''Wrong type for this!'')
      else
        (let (This1, b1) = apply_fixed_offset (fixed_offset th) (ArgOp k ty) ty b;
             (This2, b2) = (if virtual_offset_p th
                            then ApplyVirtualOffset This1 (virtual_value th) b1
                            else (This1, b1))
         in (case thunk_arguments th rest True b2 of
               Inl e \<Rightarrow> Inl e
             | Inr (Arguments, b') \<Rightarrow> Inr (This2 # Arguments, b'))))"

definition function_args :: "global_value \<Rightarrow> (nat \<times> llvm_type \<times> bool \<times> bool) list" where
  "function_args f =
     (case gv_elem_type f of
        FunctionTy ret params va \<Rightarrow>
          map (\<lambda>(k, ty). (k, ty,
                 (if k < length (gv_attributes f) then gv_attributes f ! k else (False, False))))
              (zip [0 ..< length params] params)
      | _ \<Rightarrow> [])"

text \<open>From the call to the end of the thunk.\<close>

definition thunk_call_and_return ::
  "thunk_info \<Rightarrow> global_value \<Rightarrow> llvm_type \<Rightarrow> operand \<Rightarrow> llvm_type \<Rightarrow> operand list \<Rightarrow> builder \<Rightarrow>
     failure + builder" where
  "thunk_call_and_return th f ret Callee callTy Arguments b =
     (let (Call, b1) = Insert (CallInst \<lparr>call_callee = Callee, call_args = Arguments,
                                         call_conv = gv_callingconv f,
                                         call_attrs = gv_attributes f,
                                         call_tail = True\<rparr>) callTy b
      in if this_adjusting th then
           (if ret = VoidTy then Inr (Builder_CreateRetVoid b1)
            else Inr (Builder_CreateRet Call b1))
         else if \<not> isPointerTy callTy then Inl (AssertFail ''Only know how to adjust pointers!'')
         else
           (let Zero = ConstOp (NullValue callTy) callTy;
                (isNull, b2) = Builder_CreateICmpEQ Call Zero b1;
                (isNullBB, b3) = BasicBlock_Create ''isNull'' b2;
                (isNotNullBB, b4) = BasicBlock_Create ''isNotNull'' b3;
                b5 = Builder_CreateCondBr isNull ''isNull'' ''isNotNull'' b4;
                b6 = Builder_CreateRet Zero (SetInsertPoint isNullBB b5);
                b7 = SetInsertPoint isNotNullBB b6;
                (RetVal1, b8) = (if virtual_offset_p th
                                 then ApplyVirtualOffset Call (virtual_value th) b7
                                 else (Call, b7));
                (RetVal2, b9) = apply_fixed_offset (fixed_offset th) RetVal1 ret b8
            in Inr (Builder_CreateRet RetVal2 b9)))"

definition fresh_value_number :: "basic_block list \<Rightarrow> nat" where
  "fresh_value_number bs = fold max (map (\<lambda>(n, i). Suc n) (concat (map bb_insts bs))) 0"

definition emit_thunk :: "cgraph_node \<Rightarrow> state \<Rightarrow> failure + state" where
  "emit_thunk node s =
     (if broken_code s then Inr s
      else
        (case DECL_LLVM (node_decl node) s of
           Inl e \<Rightarrow> Inl e
         | Inr (V, s1) \<Rightarrow>
             (case cast_global [FunctionKind] V s1 of
                Inl e \<Rightarrow> Inl e
              | Inr Thunk \<Rightarrow>
                  (case lookup_gv Thunk s1 of
                     None \<Rightarrow> Inl UseAfterFree
                   | Some f \<Rightarrow>
                       (case gv_elem_type f of
                          FunctionTy ret params va \<Rightarrow>
                            if va then Inr (report_sorry ''thunks to varargs functions not supported'' s1)
                            else
                              let s2 = mark_written (node_decl node) s1;
                                  d = trees s2 (node_decl node);
                                  s3 = update_gv Thunk (\<lambda>w. w\<lparr>gv_linkage := GetLinkageForAlias d s2\<rparr>) s2;
                                  s4 = handleVisibility d Thunk s3;
                                  th = node_thunk node
                              in (case BasicBlock_Create ''entry''
                                         \<lparr>b_blocks = gv_body f, b_insert = 0,
                                          b_next = fresh_value_number (gv_body f)\<rparr> of
                                    (entry, b0) \<Rightarrow>
                                      (case thunk_arguments th (function_args f) (\<not> this_adjusting th)
                                              (SetInsertPoint entry b0) of
                                         Inl e \<Rightarrow> Inl e
                                       | Inr (Arguments, b1) \<Rightarrow>
                                           let s5 = update_gv Thunk (\<lambda>w. w\<lparr>gv_body := b_blocks b1\<rparr>) s4 in
                                           (case DECL_LLVM (thunk_alias th) s5 of
                                              Inl e \<Rightarrow> Inl e
                                            | Inr (C, s6) \<Rightarrow>
                                                (case C of
                                                   None \<Rightarrow> Inl (AssertFail ''call of a null pointer'')
                                                 | Some c \<Rightarrow>
                                                     (case type_of_constant s6 c of
                                                        PointerTy (FunctionTy cret cparams cva) \<Rightarrow>
                                                          (case thunk_call_and_return th f ret
                                                                  (ConstOp c (type_of_constant s6 c)) cret
                                                                  Arguments b1 of
                                                             Inl e \<Rightarrow> Inl e
                                                           | Inr b2 \<Rightarrow>
                                                               Inr (update_gv Thunk
                                                                      (\<lambda>w. w\<lparr>gv_body := b_blocks b2\<rparr>) s6))
                                                      | _ \<Rightarrow> Inl (AssertFail ''call of a non-function''))))))
                        | _ \<Rightarrow> Inl (AssertFail ''cast argument of incompatible type''))))))"

section \<open>Running a function body\<close>

text \<open>
  What an emitted thunk does when it runs, on a 64-bit target: values are 64-bit
  words, memory maps an address to the pointer stored there, an \<open>i8*\<close> element pointer
  moves by bytes, and the function called is a parameter.  The calls made are recorded
  with the arguments they received.
\<close>

record machine =
  m_regs :: "nat \<Rightarrow> 64 word"
  m_memory :: "64 word \<Rightarrow> 64 word"
  m_calls :: "64 word list list"

record environment =
  env_args :: "64 word list"
  env_address :: "gid \<Rightarrow> 64 word"
  env_callee :: "64 word list \<Rightarrow> (64 word \<Rightarrow> 64 word) \<Rightarrow> 64 word \<times> (64 word \<Rightarrow> 64 word)"

fun eval_constant :: "environment \<Rightarrow> llvm_constant \<Rightarrow> 64 word" where
  "eval_constant env (GlobalRef g) = env_address env g"
| "eval_constant env (BitCastExpr c ty) = eval_constant env c"
| "eval_constant env (UndefValue ty) = 0"
| "eval_constant env (NullValue ty) = 0"
| "eval_constant env (ConstantInt ty i) = word_of_int i"
| "eval_constant env (ConstantString ty str) = 0"

fun eval_operand :: "environment \<Rightarrow> machine \<Rightarrow> operand \<Rightarrow> 64 word" where
  "eval_operand env m (ConstOp c ty) = eval_constant env c"
| "eval_operand env m (ArgOp k ty) = (if k < length (env_args env) then env_args env ! k else 0)"
| "eval_operand env m (InstOp n ty) = m_regs m n"

datatype flow = Next machine | Return "64 word option" machine | Branch string machine | Stuck

fun exec_instruction :: "environment \<Rightarrow> nat \<Rightarrow> instruction \<Rightarrow> machine \<Rightarrow> flow" where
  "exec_instruction env n (BitCastInst x ty) m =
     Next (m\<lparr>m_regs := (m_regs m)(n := eval_operand env m x)\<rparr>)"
| "exec_instruction env n (GEPInst x y) m =
     (if operand_type x = BytePtrTy
      then Next (m\<lparr>m_regs := (m_regs m)(n := eval_operand env m x + eval_operand env m y)\<rparr>)
      else Stuck)"
| "exec_instruction env n (LoadInst x) m =
     Next (m\<lparr>m_regs := (m_regs m)(n := m_memory m (eval_operand env m x))\<rparr>)"
| "exec_instruction env n (PtrToIntInst x ty) m =
     Next (m\<lparr>m_regs := (m_regs m)(n := eval_operand env m x)\<rparr>)"
| "exec_instruction env n (ICmpEQInst x y) m =
     Next (m\<lparr>m_regs := (m_regs m)(n := (if eval_operand env m x = eval_operand env m y then 1 else 0))\<rparr>)"
| "exec_instruction env n (CallInst c) m =
     (let actual = map (eval_operand env m) (call_args c);
          (r, mem) = env_callee env actual (m_memory m)
      in Next (m\<lparr>m_regs := (m_regs m)(n := r), m_memory := mem,
                 m_calls := m_calls m @ [actual]\<rparr>))"
| "exec_instruction env n (RetInst r) m = Return (map_option (eval_operand env m) r) m"
| "exec_instruction env n (CondBrInst x yes no) m =
     (if eval_operand env m x \<noteq> 0 then Branch yes m else Branch no m)"

fun exec_block :: "environment \<Rightarrow> (nat \<times> instruction) list \<Rightarrow> machine \<Rightarrow> flow" where
  "exec_block env [] m = Stuck"
| "exec_block env ((n, i) # rest) m =
     (case exec_instruction env n i m of
        Next m' \<Rightarrow> exec_block env rest m'
      | other \<Rightarrow> other)"

fun run_blocks :: "nat \<Rightarrow> environment \<Rightarrow> basic_block list \<Rightarrow> string \<Rightarrow> machine \<Rightarrow>
    (64 word option \<times> machine) option" where
  "run_blocks 0 env bs l m = None"
| "run_blocks (Suc k) env bs l m =
     (case find (\<lambda>b. bb_name b = l) bs of
        None \<Rightarrow> None
      | Some b \<Rightarrow>
          (case exec_block env (bb_insts b) m of
             Return r m' \<Rightarrow> Some (r, m')
           | Branch l' m' \<Rightarrow> run_blocks k env bs l' m'
           | Next m' \<Rightarrow> None
           | Stuck \<Rightarrow> None))"

definition run_function :: "environment \<Rightarrow> basic_block list \<Rightarrow> (64 word \<Rightarrow> 64 word) \<Rightarrow>
    (64 word option \<times> machine) option" where
  "run_function env body mem =
     (case body of
        [] \<Rightarrow> None
      | b # bs \<Rightarrow> run_blocks (length body) env body (bb_name b)
                   \<lparr>m_regs = (\<lambda>n. 0), m_memory = mem, m_calls = []\<rparr>)"

section \<open>Example units\<close>

text \<open>
  A small unit to run the engine on: every declaration node is a public, static
  \<open>int\<close> variable named \<open>x\<close> unless stated otherwise, and the module is empty.
\<close>

definition int_type :: gcc_type where
  "int_type = \<lparr>TYPE_SIZE = Some 32, TYPE_MODE_BLKmode = False, AGGREGATE_TYPE_P = False,
     ConvertType = IntTy 32\<rparr>"

definition plain_decl :: decl where
  "plain_decl = \<lparr>TREE_CODE = VAR_DECL, HAS_RTL_P = True, TREE_TYPE = int_type, DECL_SIZE = None,
     DECL_INITIAL = None, DECL_ASSEMBLER_NAME = Some ''x'', DECL_REGISTER = False,
     TREE_PUBLIC = True, TREE_STATIC = True, DECL_EXTERNAL = False, DECL_WEAK = False,
     DECL_ONE_ONLY = False, DECL_COMMON = False, DECL_COMDAT = False, TREE_READONLY = False,
     TREE_SIDE_EFFECTS = False, TREE_THIS_VOLATILE = False, DECL_THREAD_LOCAL_P = False,
     DECL_SECTION_NAME = None, DECL_ALIGN = 0, DECL_USER_ALIGN = False, DECL_PRESERVE_P = False,
     DECL_ATTRIBUTES = [], DECL_VISIBILITY = VISIBILITY_DEFAULT,
     DECL_VISIBILITY_SPECIFIED = False, TREE_ASM_WRITTEN = False,
     ConvertFunctionType = (FunctionTy VoidTy [] False, 0, [])\<rparr>"

definition empty_unit :: state where
  "empty_unit = \<lparr>trees = (\<lambda>t. plain_decl), cache = (\<lambda>t. Raw 0), globals = [],
     StaticCtors = [], StaticDtors = [], AttributeUsedGlobals = [],
     AttributeCompilerUsedGlobals = [], errorcount = 0, sorrycount = 0, diagnostics = [],
     flag_odr = False, flag_default_initialize_globals = True, ENABLE_CHECKING = True,
     REGISTER_PREFIX = None, decode_reg_name = (\<lambda>n. - 1), ABITypeAlignment = (\<lambda>ty. 4),
     TypeAllocSizeInBits = (\<lambda>ty. 32), cgraph_node_for_asm = (\<lambda>n. None),
     varpool_node_for_asm = (\<lambda>n. None)\<rparr>"

definition with_decl :: "tree \<Rightarrow> decl \<Rightarrow> state \<Rightarrow> state" where
  "with_decl t d s = s\<lparr>trees := (trees s)(t := d)\<rparr>"

section \<open>Notions used in the statements\<close>

text \<open>A declaration is bound to a value: it has RTL and the cache holds the value for it.\<close>

definition bound_to :: "tree \<Rightarrow> llvm_constant \<Rightarrow> state \<Rightarrow> bool" where
  "bound_to t V s = (HAS_RTL_P (trees s t) \<and> llvm_get_cached t s = ValuePtr V)"

text \<open>
  The diagnostic a register variable gets, by the number \<open>decode_reg_name\<close> gives for
  its register name: the five ways of being malformed, the warning for a volatile
  one, or nothing.
\<close>

definition register_diagnostic :: "decl \<Rightarrow> int \<Rightarrow> diagnostic list" where
  "register_diagnostic d RegNumber =
     (if RegNumber = - 1 then [Error ''register name not specified for %q+D'']
      else if RegNumber < 0 then [Error ''invalid register name for %q+D'']
      else if TYPE_MODE_BLKmode (TREE_TYPE d)
        then [Error ''data type of %q+D isn%'t suitable for a register'']
      else if DECL_INITIAL d \<noteq> None \<and> TREE_STATIC d
        then [Error ''global register variable has initial value'']
      else if AGGREGATE_TYPE_P (TREE_TYPE d)
        then [Sorry ''LLVM cannot handle register variable %q+D, report a bug'']
      else if TREE_THIS_VOLATILE d
        then [Warning ''volatile register variables don%'t work as you might wish'']
      else [])"

definition register_decl :: decl where
  "register_decl = plain_decl\<lparr>DECL_REGISTER := True, DECL_ASSEMBLER_NAME := Some ''*ebp''\<rparr>"

text \<open>
  What a repair of symbol \<open>G\<close> leaves in the module: \<open>G\<close> is gone, every other live
  value holds the operands it held with \<open>G\<close> replaced by \<open>Cast\<close>, and no operand
  mentions \<open>G\<close>.
\<close>

definition redirected :: "gid \<Rightarrow> llvm_constant \<Rightarrow> state \<Rightarrow> state \<Rightarrow> bool" where
  "redirected G Cast s s' =
     (lookup_gv G s' = None \<and>
      (\<forall>g v. g \<noteq> G \<and> lookup_gv g s = Some v \<longrightarrow>
         (\<exists>v'. lookup_gv g s' = Some v' \<and>
               global_operands v' = map (replace_constant (GlobalRef G) Cast) (global_operands v))) \<and>
      (\<forall>c \<in> set (all_operands s'). \<not> occurs (GlobalRef G) c))"

text \<open>
  What a repair leaves in the engine's own containers: wherever the cache, the
  constructor and destructor lists and the two root sets held \<open>Old\<close> they hold \<open>New\<close>,
  and none of them holds \<open>Old\<close>.
\<close>

definition rebound :: "llvm_constant \<Rightarrow> llvm_constant \<Rightarrow> state \<Rightarrow> state \<Rightarrow> bool" where
  "rebound Old New s s' =
     ((\<forall>t. llvm_get_cached t s = ValuePtr Old \<longrightarrow> llvm_get_cached t s' = ValuePtr New) \<and>
      (\<forall>t. llvm_get_cached t s' \<noteq> ValuePtr Old) \<and>
      StaticCtors s' = map (\<lambda>(c, p). (if c = Old then New else c, p)) (StaticCtors s) \<and>
      StaticDtors s' = map (\<lambda>(c, p). (if c = Old then New else c, p)) (StaticDtors s) \<and>
      Old \<notin> fst ` set (StaticCtors s') \<and> Old \<notin> fst ` set (StaticDtors s') \<and>
      (Old \<in> set (AttributeUsedGlobals s) \<longrightarrow> New \<in> set (AttributeUsedGlobals s')) \<and>
      (Old \<in> set (AttributeCompilerUsedGlobals s) \<longrightarrow> New \<in> set (AttributeCompilerUsedGlobals s')) \<and>
      Old \<notin> set (AttributeUsedGlobals s') \<and> Old \<notin> set (AttributeCompilerUsedGlobals s'))"


definition after :: "failure + ('a \<times> state) \<Rightarrow> state" where
  "after r = (case r of Inr (a, s) \<Rightarrow> s | Inl e \<Rightarrow> empty_unit)"

text \<open>
  A unit in which \<open>x\<close> is materialized (symbol 1), a pointer \<open>p\<close> (symbol 2) is
  initialized with its address, and \<open>x\<close> is in a root set and in the constructor list.
\<close>

definition materialized_unit :: state where
  "materialized_unit = after (make_decl_llvm 1 empty_unit)"

















text \<open>The unit in which \<open>x\<close> is materialized, after an error was reported.\<close>

definition broken_unit :: state where
  "broken_unit = error ''an earlier error'' materialized_unit"

subsection \<open>Aliases\<close>

text \<open>Fields that make a symbol what it is for the linker.\<close>

definition same_symbol :: "global_value option \<Rightarrow> global_value option \<Rightarrow> bool" where
  "same_symbol a b =
     (map_option gv_kind a = map_option gv_kind b \<and>
      map_option gv_linkage a = map_option gv_linkage b \<and>
      map_option gv_in_module a = map_option gv_in_module b \<and>
      map_option gv_elem_type a = map_option gv_elem_type b \<and>
      map_option gv_name a = map_option gv_name b)"

text \<open>The alias symbols of the module.\<close>

definition alias_ids :: "state \<Rightarrow> gid list" where
  "alias_ids s = map fst (filter (\<lambda>x. gv_kind (snd x) = GlobalAliasKind) (globals s))"

text \<open>The test \<open>lookup_attribute("weakref", DECL_ATTRIBUTES(decl))\<close> of \<open>emit_alias\<close>.\<close>

definition is_weakref :: "tree \<Rightarrow> state \<Rightarrow> bool" where
  "is_weakref decl s = lookup_attribute ''weakref'' (DECL_ATTRIBUTES (trees s decl))"

text \<open>A variable \<open>x\<close> declared with the attribute \<open>weakref\<close>.\<close>

definition weakref_decl :: decl where
  "weakref_decl = plain_decl\<lparr>DECL_ATTRIBUTES := [''weakref'']\<rparr>"

definition weakref_unit :: state where
  "weakref_unit = with_decl 1 weakref_decl empty_unit"

text \<open>
  What a step leaves alone as far as aliases go: it adds no alias symbol and changes
  neither the tables of defined names nor the attributes of the declarations.
\<close>

definition alias_frame :: "state \<Rightarrow> state \<Rightarrow> bool" where
  "alias_frame s s' =
     (set (alias_ids s') \<subseteq> set (alias_ids s) \<and>
      cgraph_node_for_asm s' = cgraph_node_for_asm s \<and>
      varpool_node_for_asm s' = varpool_node_for_asm s \<and>
      (\<lambda>t. DECL_ATTRIBUTES (trees s' t)) = (\<lambda>t. DECL_ATTRIBUTES (trees s t)))"

section \<open>The integer namespace of the identity cache\<close>

lemma ucast_scast_32_64: "(ucast (scast (x :: 32 word) :: 64 word) :: 32 word) = x"
  by (rule bit_word_eqI) (auto simp add: bit_simps)

lemma negative_encoding: "0 \<le>s (i :: 32 word) \<Longrightarrow> - i - 1 <s 0"
proof -
  assume "0 \<le>s i"
  then have nonneg: "0 \<le> sint i" by (simp add: word_sle_eq)
  have lt: "sint i < 2 ^ 31" using sint_lt [of i] by simp
  have "- i - 1 = word_of_int (- sint i - 1)" by simp
  then have "sint (- i - 1) = signed_take_bit 31 (- sint i - 1)"
    by (simp only: sint_sbintrunc') simp
  also have "\<dots> = - sint i - 1"
    using nonneg lt by (intro signed_take_bit_int_eq_self) auto
  finally show ?thesis using nonneg by (simp add: word_sless_alt)
qed

text \<open>
  C8.  For a declaration without RTL and an index \<open>i \<ge> 0\<close> of type \<open>int\<close>,
  \<open>set_decl_index\<close> stores the negative pointer-sized value \<open>-i-1\<close>, and
  \<open>get_decl_index\<close> then returns \<open>i\<close>.  On an entry that is unset (the null pointer)
  \<open>get_decl_index\<close> returns a negative value.
\<close>

theorem decl_index_roundtrip:
  assumes "\<not> HAS_RTL_P (trees s t)" and "0 \<le>s i"
  shows "(\<exists>s'. set_decl_index t i s = Inr (i, s') \<and>
              llvm_get_cached t s' = Raw (scast (- i - 1)) \<and>
              (scast (- i - 1) :: 64 word) <s 0 \<and>
              get_decl_index t s' = Inr i) \<and>
         (llvm_get_cached t s = Raw 0 \<longrightarrow> (\<exists>r. get_decl_index t s = Inr r \<and> r <s 0))"
  using assms negative_encoding [of i]
  by (simp add: set_decl_index_def get_decl_index_def llvm_set_cached_def llvm_get_cached_def
      word_sless_alt word_sle_eq ucast_scast_32_64 sint_up_scast is_up)

theorem decl_index_roundtrip_witness:
  "\<not> HAS_RTL_P (trees (with_decl 7 (plain_decl\<lparr>TREE_CODE := CONST_DECL, HAS_RTL_P := False\<rparr>) empty_unit) 7)
   \<and> (0 :: 32 word) \<le>s 5
   \<and> (\<exists>s'. set_decl_index 7 5
               (with_decl 7 (plain_decl\<lparr>TREE_CODE := CONST_DECL, HAS_RTL_P := False\<rparr>) empty_unit)
             = Inr (5, s') \<and>
            llvm_get_cached 7 s' = Raw (scast (- 5 - 1 :: 32 word)) \<and>
            (scast (- 5 - 1 :: 32 word) :: 64 word) <s 0 \<and>
            get_decl_index 7 s' = Inr 5)
   \<and> (\<exists>r. get_decl_index 7
               (with_decl 7 (plain_decl\<lparr>TREE_CODE := CONST_DECL, HAS_RTL_P := False\<rparr>) empty_unit)
             = Inr r \<and> r <s 0)"
proof -
  let ?s = "with_decl 7 (plain_decl\<lparr>TREE_CODE := CONST_DECL, HAS_RTL_P := False\<rparr>) empty_unit"
  have h1: "\<not> HAS_RTL_P (trees ?s 7)" by (simp add: with_decl_def)
  have h2: "(0 :: 32 word) \<le>s 5" by (simp add: word_sle_eq)
  have h3: "llvm_get_cached 7 ?s = Raw 0"
    by (simp add: llvm_get_cached_def with_decl_def empty_unit_def)
  from decl_index_roundtrip [OF h1 h2] h1 h2 h3 show ?thesis by blast
qed

section \<open>Materialization is idempotent\<close>

lemma SET_DECL_LLVM_bound:
  "SET_DECL_LLVM t (Some V) s = Inr (r, s') \<Longrightarrow> r = Some V \<and> bound_to t V s'"
  by (auto simp: SET_DECL_LLVM_def set_decl_llvm_def bound_to_def llvm_set_cached_def
      llvm_get_cached_def voidp_of_value_def split: if_splits)

lemma make_decl_llvm_function_bound:
  "make_decl_llvm_function decl Name s = Inr (r, s') \<Longrightarrow> \<exists>V. r = Some V \<and> bound_to decl V s'"
  unfolding make_decl_llvm_function_def
  by (auto split: if_splits option.splits prod.splits sum.splits dest!: SET_DECL_LLVM_bound)

lemma make_decl_llvm_variable_bound:
  "make_decl_llvm_variable decl Name s = Inr (r, s') \<Longrightarrow> \<exists>V. r = Some V \<and> bound_to decl V s'"
  unfolding make_decl_llvm_variable_def Let_def
  by (auto split: if_splits option.splits prod.splits sum.splits dest!: SET_DECL_LLVM_bound)

lemma bound_to_hit: "bound_to t V s \<Longrightarrow> make_decl_llvm t s = Inr (Some V, s)"
  by (simp add: bound_to_def make_decl_llvm_def get_decl_llvm_def)

lemma get_decl_llvm_Some: "get_decl_llvm t s = Inr (Some V) \<Longrightarrow> bound_to t V s"
  by (auto simp: get_decl_llvm_def bound_to_def split: if_splits voidp.splits)

lemma make_decl_llvm_Some_bound:
  "make_decl_llvm decl s = Inr (Some V, s') \<Longrightarrow> bound_to decl V s'"
  unfolding make_decl_llvm_def Let_def
  by (auto split: if_splits option.splits prod.splits sum.splits
      dest!: make_decl_llvm_function_bound make_decl_llvm_variable_bound get_decl_llvm_Some)

lemma make_decl_llvm_returns_symbol:
  "make_decl_llvm decl s = Inr (r, s') \<Longrightarrow> \<not> broken_code s \<Longrightarrow>
   TREE_CODE (trees s decl) = FUNCTION_DECL \<or> \<not> DECL_REGISTER (trees s decl) \<Longrightarrow> r \<noteq> None"
  unfolding make_decl_llvm_def Let_def
  by (auto split: if_splits option.splits prod.splits sum.splits
      dest!: make_decl_llvm_function_bound make_decl_llvm_variable_bound)

text \<open>
  C4.  When \<open>make_decl_llvm\<close> returns a symbol for a declaration, the symbol is in the
  identity cache afterwards and a second call returns the same symbol and leaves the
  state as it is, so it creates nothing.  In a unit without errors the call returns a
  symbol for every declaration that is not a register variable.
\<close>

theorem make_decl_llvm_idempotent:
  assumes "make_decl_llvm decl s = Inr (r, s')"
  shows "(\<forall>V. r = Some V \<longrightarrow>
            llvm_get_cached decl s' = ValuePtr V \<and> make_decl_llvm decl s' = Inr (Some V, s')) \<and>
         (\<not> broken_code s \<and>
          (TREE_CODE (trees s decl) = FUNCTION_DECL \<or> \<not> DECL_REGISTER (trees s decl))
            \<longrightarrow> r \<noteq> None)"
  using assms make_decl_llvm_Some_bound [of decl s _ s']
    make_decl_llvm_returns_symbol [of decl s r s'] bound_to_hit [of decl _ s']
  by (auto simp: bound_to_def)

theorem make_decl_llvm_idempotent_witness:
  "\<exists>s'. make_decl_llvm 1 empty_unit = Inr (Some (GlobalRef 1), s') \<and>
        llvm_get_cached 1 s' = ValuePtr (GlobalRef 1) \<and>
        make_decl_llvm 1 s' = Inr (Some (GlobalRef 1), s') \<and>
        map fst (globals s') = [1] \<and>
        \<not> broken_code empty_unit \<and> \<not> DECL_REGISTER (trees empty_unit 1)"
proof -
  have "case make_decl_llvm 1 empty_unit of
          Inr (r, s') \<Rightarrow> r = Some (GlobalRef 1) \<and> map fst (globals s') = [1]
        | Inl e \<Rightarrow> False"
    by code_simp
  then obtain s' where h: "make_decl_llvm 1 empty_unit = Inr (Some (GlobalRef 1), s')"
    and g: "map fst (globals s') = [1]"
    by (auto split: sum.splits)
  from make_decl_llvm_idempotent [OF h] h g show ?thesis
    by (auto simp: broken_code_def empty_unit_def plain_decl_def)
qed

section \<open>Register variables\<close>

lemma ValidateRegisterVariable_frame:
  assumes "ValidateRegisterVariable decl s = Inr (b, s')"
  shows "globals s' = globals s \<and> cache s' = cache s \<and> trees s' = trees s \<and>
         StaticCtors s' = StaticCtors s \<and> StaticDtors s' = StaticDtors s \<and>
         AttributeUsedGlobals s' = AttributeUsedGlobals s \<and>
         AttributeCompilerUsedGlobals s' = AttributeCompilerUsedGlobals s"
  using assms unfolding ValidateRegisterVariable_def Let_def
  by (auto simp: error_def report_sorry_def warning_def split: sum.splits if_splits)

lemma ValidateRegisterVariable_diagnostics:
  assumes "ValidateRegisterVariable decl s = Inr (b, s')" and "\<not> broken_code s"
    and "extractRegisterName (trees s decl) = Inr n"
  shows "diagnostics s' = diagnostics s @ register_diagnostic (trees s decl) (decode_reg_name s n)"
  using assms unfolding ValidateRegisterVariable_def Let_def register_diagnostic_def
  by (auto simp: error_def report_sorry_def warning_def split: sum.splits if_splits)

lemma ValidateRegisterVariable_total:
  assumes "DECL_ASSEMBLER_NAME (trees s decl) \<noteq> None"
  shows "\<exists>b s'. ValidateRegisterVariable decl s = Inr (b, s')"
  using assms unfolding ValidateRegisterVariable_def Let_def extractRegisterName_def
  by (auto split: sum.splits if_splits option.splits)

text \<open>
  C10.  For a declaration that is not a function and is marked as a register variable,
  with no cache entry, \<open>make_decl_llvm\<close> returns the null pointer; the module, the
  cache, the declarations and the containers are as before.  In a unit without errors
  the only effect is the diagnostic of \<open>ValidateRegisterVariable\<close>: one of the five
  errors when the declaration is malformed, a warning for a volatile one, nothing
  otherwise; in a unit with errors there is no effect at all.  (A build with
  \<open>ENABLE_CHECKING\<close> aborts on parameter, result, type and label declarations before
  that.)
\<close>

theorem register_variable_not_materialized:
  assumes "TREE_CODE (trees s decl) \<noteq> FUNCTION_DECL" and "DECL_REGISTER (trees s decl)"
    and "HAS_RTL_P (trees s decl)" and "llvm_get_cached decl s = Raw 0"
    and "extractRegisterName (trees s decl) = Inr n"
    and "\<not> ENABLE_CHECKING s \<or> TREE_CODE (trees s decl) = VAR_DECL \<or>
         TREE_CODE (trees s decl) = CONST_DECL"
  shows "\<exists>s'. make_decl_llvm decl s = Inr (None, s') \<and>
           globals s' = globals s \<and> cache s' = cache s \<and> trees s' = trees s \<and>
           StaticCtors s' = StaticCtors s \<and> StaticDtors s' = StaticDtors s \<and>
           AttributeUsedGlobals s' = AttributeUsedGlobals s \<and>
           AttributeCompilerUsedGlobals s' = AttributeCompilerUsedGlobals s \<and>
           (if broken_code s then s' = s
            else diagnostics s' =
                   diagnostics s @ register_diagnostic (trees s decl) (decode_reg_name s n))"
proof -
  have name: "DECL_ASSEMBLER_NAME (trees s decl) \<noteq> None"
    using assms(5) by (auto simp: extractRegisterName_def split: option.splits)
  obtain b s1 where v: "ValidateRegisterVariable decl s = Inr (b, s1)"
    using ValidateRegisterVariable_total [OF name] by blast
  have miss: "get_decl_llvm decl s = Inr None"
    using assms(3,4) by (simp add: get_decl_llvm_def)
  show ?thesis
  proof (cases "broken_code s")
    case True
    with miss assms(1,2,6) show ?thesis
      by (auto simp: make_decl_llvm_def Let_def)
  next
    case False
    with miss assms(1,2,6) v have "make_decl_llvm decl s = Inr (None, s1)"
      by (auto simp: make_decl_llvm_def Let_def)
    with False ValidateRegisterVariable_frame [OF v]
      ValidateRegisterVariable_diagnostics [OF v False assms(5)]
    show ?thesis by simp
  qed
qed

theorem register_variable_not_materialized_witness:
  "TREE_CODE (trees (with_decl 3 register_decl empty_unit) 3) \<noteq> FUNCTION_DECL \<and>
   DECL_REGISTER (trees (with_decl 3 register_decl empty_unit) 3) \<and>
   HAS_RTL_P (trees (with_decl 3 register_decl empty_unit) 3) \<and>
   llvm_get_cached 3 (with_decl 3 register_decl empty_unit) = Raw 0 \<and>
   extractRegisterName (trees (with_decl 3 register_decl empty_unit) 3) = Inr ''ebp'' \<and>
   TREE_CODE (trees (with_decl 3 register_decl empty_unit) 3) = VAR_DECL \<and>
   (\<exists>s'. make_decl_llvm 3 (with_decl 3 register_decl empty_unit) = Inr (None, s') \<and>
         globals s' = [] \<and> cache s' 3 = Raw 0 \<and>
         diagnostics s' = [Error ''register name not specified for %q+D''])"
proof -
  let ?s = "with_decl 3 register_decl empty_unit"
  have h1: "TREE_CODE (trees ?s 3) \<noteq> FUNCTION_DECL"
    and h2: "DECL_REGISTER (trees ?s 3)"
    and h3: "HAS_RTL_P (trees ?s 3)"
    and h4: "llvm_get_cached 3 ?s = Raw 0"
    and h5: "extractRegisterName (trees ?s 3) = Inr ''ebp''"
    and h6: "TREE_CODE (trees ?s 3) = VAR_DECL"
    by (simp_all add: with_decl_def register_decl_def plain_decl_def empty_unit_def
        llvm_get_cached_def extractRegisterName_def)
  have nb: "\<not> broken_code ?s"
    by (simp add: broken_code_def with_decl_def empty_unit_def)
  have d: "register_diagnostic (trees ?s 3) (decode_reg_name ?s ''ebp'')
             = [Error ''register name not specified for %q+D'']"
    by (simp add: register_diagnostic_def with_decl_def empty_unit_def)
  have g: "globals ?s = []" "cache ?s 3 = Raw 0" "diagnostics ?s = []"
    by (simp_all add: with_decl_def empty_unit_def)
  from register_variable_not_materialized [OF h1 h2 h3 h4 h5] h6 nb d g
  have "\<exists>s'. make_decl_llvm 3 ?s = Inr (None, s') \<and> globals s' = [] \<and> cache s' 3 = Raw 0 \<and>
          diagnostics s' = [Error ''register name not specified for %q+D'']"
    by auto
  with h1 h2 h3 h4 h5 h6 show ?thesis by blast
qed

section \<open>Facts about the output module\<close>

subsection \<open>Lookup in the list of live values\<close>

lemma map_of_update_entries:
  "map_of (map (\<lambda>(h, v). if h = g then (h, f v) else (h, v)) xs) k =
     (if k = g then map_option f (map_of xs k) else map_of xs k)"
  by (induction xs) auto

lemma lookup_update_gv:
  "lookup_gv k (update_gv g f s) = (if k = g then map_option f (lookup_gv k s) else lookup_gv k s)"
  by (simp add: lookup_gv_def update_gv_def map_of_update_entries)

lemma map_of_filter_key:
  "map_of (filter (\<lambda>(h, v). h \<noteq> g) xs) k = (if k = g then None else map_of xs k)"
  by (induction xs) auto

lemma lookup_delete_gv:
  "lookup_gv k (delete_gv g s) = (if k = g then None else lookup_gv k s)"
  by (simp add: lookup_gv_def delete_gv_def map_of_filter_key)

lemma map_of_map_values:
  "map_of (map (\<lambda>(g, v). (g, f v)) xs) k = map_option f (map_of xs k)"
  by (induction xs) auto

lemma lookup_replaceAllUsesWith:
  "lookup_gv k (replaceAllUsesWith Old New s) =
     map_option (map_global_operands (replace_constant Old New)) (lookup_gv k s)"
  by (simp add: lookup_gv_def replaceAllUsesWith_def map_of_map_values)

lemma fold_max_ge: "(a :: nat) \<le> fold max xs a"
  by (induction xs arbitrary: a) (auto intro: order_trans [OF max.cobounded2])

lemma fold_max_mem: "(x :: nat) \<in> set xs \<Longrightarrow> x \<le> fold max xs a"
proof (induction xs arbitrary: a)
  case Nil
  then show ?case by simp
next
  case (Cons y ys)
  show ?case
  proof (cases "x = y")
    case True
    have "y \<le> max y a" by simp
    also have "\<dots> \<le> fold max ys (max y a)" by (rule fold_max_ge)
    finally show ?thesis using True by simp
  next
    case False
    with Cons show ?thesis by simp
  qed
qed

lemma fresh_gid_unused: "lookup_gv (fresh_gid s) s = None"
proof (rule ccontr)
  assume "lookup_gv (fresh_gid s) s \<noteq> None"
  then obtain v where "map_of (globals s) (fresh_gid s) = Some v"
    by (auto simp: lookup_gv_def)
  then have "fresh_gid s \<in> set (map fst (globals s))"
    by (metis map_of_SomeD image_eqI fst_conv set_map)
  then have "fresh_gid s \<le> fold max (map fst (globals s)) 0"
    by (rule fold_max_mem)
  then show False by (simp add: fresh_gid_def)
qed

lemma lookup_add_global:
  "add_global v s = (g, s') \<Longrightarrow>
   g = fresh_gid s \<and>
   lookup_gv k s' = (if k = g then Some (v\<lparr>gv_name := unique_name (gv_name v) s\<rparr>) else lookup_gv k s)"
  using fresh_gid_unused [of s]
  by (auto simp: add_global_def Let_def lookup_gv_def map_add_def split: option.splits)

subsection \<open>Uses and their replacement\<close>

lemma occurs_replace_global:
  "\<not> occurs (GlobalRef g) New \<Longrightarrow> \<not> occurs (GlobalRef g) (replace_constant (GlobalRef g) New c)"
  by (induction c) auto

lemma replace_absent: "\<not> occurs Old c \<Longrightarrow> replace_constant Old New c = c"
  by (induction c) auto

lemma operand_constants_map:
  "operand_constants (map_operand f x) = map f (operand_constants x)"
  by (cases x) auto

lemma instruction_operands_map:
  "instruction_operands (map_instruction g i) = map g (instruction_operands i)"
  by (cases i) (auto split: option.splits)

lemma body_constants_map: "body_constants (map_body f bs) = map f (body_constants bs)"
  by (simp add: body_constants_def map_body_def map_concat comp_def case_prod_unfold
      instruction_operands_map operand_constants_map)

lemma global_operands_map:
  "global_operands (map_global_operands f v) = map f (global_operands v)"
  by (simp add: global_operands_def map_global_operands_def body_constants_map
      split: option.splits)

lemma all_operands_replaceAllUsesWith:
  "all_operands (replaceAllUsesWith Old New s) = map (replace_constant Old New) (all_operands s)"
  by (simp add: all_operands_def replaceAllUsesWith_def map_concat comp_def case_prod_unfold
      global_operands_map)

lemma use_empty_replaceAllUsesWith:
  "\<not> occurs (GlobalRef g) New \<Longrightarrow> use_empty (GlobalRef g) (replaceAllUsesWith (GlobalRef g) New s)"
  by (auto simp: use_empty_def all_operands_replaceAllUsesWith occurs_replace_global)

lemma all_operands_lookup:
  "lookup_gv k s = Some v \<Longrightarrow> set (global_operands v) \<subseteq> set (all_operands s)"
  by (auto simp: lookup_gv_def all_operands_def dest!: map_of_SomeD)






lemma replace_first_alt:
  "replace_first Old New xs = map (\<lambda>(c, p). (if c = Old then New else c, p)) xs"
  by (auto simp: replace_first_def)

lemma replace_first_no_old: "New \<noteq> Old \<Longrightarrow> Old \<notin> fst ` set (replace_first Old New xs)"
  by (auto simp: replace_first_def split: if_splits)

lemma changeLLVMConstant_rebound:
  assumes "changeLLVMConstant Old New s = Inr s'" and "New \<noteq> Old"
  shows "rebound Old New s s' \<and> globals s' = globals s \<and> trees s' = trees s"
  using assms
  unfolding changeLLVMConstant_def Let_def rebound_def
  by (auto simp: llvm_replace_cached_def llvm_get_cached_def setvector_insert_def
      setvector_remove_def replace_first_alt
      split: if_splits)

lemma changeLLVMConstant_succeeds:
  "use_empty Old s \<Longrightarrow> \<exists>s'. changeLLVMConstant Old New s = Inr s'"
  by (simp add: changeLLVMConstant_def Let_def)



lemma SET_DECL_LLVM_frame:
  assumes "SET_DECL_LLVM t V s = Inr (r, s')"
  shows "s' = s\<lparr>cache := (cache s)(t := voidp_of_value V)\<rparr>"
  using assms by (auto simp: SET_DECL_LLVM_def set_decl_llvm_def llvm_set_cached_def split: if_splits)









section \<open>The forward-declaration repair\<close>




section \<open>The linkage of a global variable\<close>






lemma lookup_mark_written: "lookup_gv k (mark_written t s) = lookup_gv k s"
  by (simp add: mark_written_def lookup_gv_def)









section \<open>A global initialized with its own address\<close>








lemma value_kind_cases:
  "k = GlobalVariableKind \<or> k = FunctionKind \<or> k = GlobalAliasKind"
  by (cases k) auto









section \<open>Units with errors\<close>

text \<open>
  Alias and thunk emission test the error counters first and do nothing in a unit with
  errors; \<open>make_decl_llvm\<close> returns the cached value or the null pointer and leaves
  the state as it is.
\<close>

lemma broken_code_make_decl_llvm:
  "broken_code s \<Longrightarrow> make_decl_llvm decl s = Inr (r, s') \<Longrightarrow> s' = s"
  by (auto simp: make_decl_llvm_def Let_def split: sum.splits option.splits if_splits)

lemma broken_code_emit_alias: "broken_code s \<Longrightarrow> emit_alias n decl target s = Inr s"
  by (simp add: emit_alias_def)

lemma broken_code_emit_thunk: "broken_code s \<Longrightarrow> emit_thunk node s = Inr s"
  by (simp add: emit_thunk_def)

lemma broken_unit_broken: "broken_code broken_unit"
  by code_simp

text \<open>
  C9.  \<open>emit_global\<close> has no such test.  In a unit with an error, the variable \<open>x\<close>
  that is already materialized gets its initializer and is marked as written, and for
  a declaration that is not materialized \<open>emit_global\<close> fails on the null pointer that
  \<open>make_decl_llvm\<close> returns.
\<close>

theorem emit_global_runs_in_broken_unit:
  "errorcount broken_unit = 1 \<and>
   \<not> TREE_ASM_WRITTEN (trees broken_unit 1) \<and>
   map_option gv_initializer (lookup_gv 1 broken_unit) = Some None \<and>
   (case emit_global (Suc 0) 1 broken_unit of
      Inl e \<Rightarrow> False
    | Inr s' \<Rightarrow>
        TREE_ASM_WRITTEN (trees s' 1) \<and>
        map_option gv_initializer (lookup_gv 1 s') = Some (Some (NullValue (IntTy 32)))) \<and>
   (case emit_global (Suc 0) 2
           (with_decl 2 (plain_decl\<lparr>DECL_ASSEMBLER_NAME := Some ''y''\<rparr>) broken_unit) of
      Inl e \<Rightarrow> e = AssertFail ''cast on a null pointer''
    | Inr s' \<Rightarrow> False)"
  by code_simp

section \<open>Aliases to undefined targets\<close>

lemma map_global_operands_fields:
  "gv_kind (map_global_operands f v) = gv_kind v"
  "gv_linkage (map_global_operands f v) = gv_linkage v"
  "gv_in_module (map_global_operands f v) = gv_in_module v"
  "gv_name (map_global_operands f v) = gv_name v"
  "gv_elem_type (map_global_operands f v) = gv_elem_type v"
  by (simp_all add: map_global_operands_def)

lemma same_symbol_refl: "same_symbol a a"
  by (simp add: same_symbol_def)

lemma same_symbol_trans: "same_symbol a b \<Longrightarrow> same_symbol b c \<Longrightarrow> same_symbol a c"
  by (simp add: same_symbol_def)

lemma same_symbol_SomeD:
  "same_symbol a (Some v) \<Longrightarrow>
   \<exists>w. a = Some w \<and> gv_kind w = gv_kind v \<and> gv_linkage w = gv_linkage v \<and>
       gv_in_module w = gv_in_module v \<and> gv_elem_type w = gv_elem_type v \<and>
       gv_name w = gv_name v"
  by (cases a) (auto simp: same_symbol_def)

lemma same_symbol_handleVisibility:
  "same_symbol (lookup_gv k (handleVisibility d g s)) (lookup_gv k s)"
  by (simp add: same_symbol_def handleVisibility_def lookup_update_gv option.map_comp comp_def)

lemma same_symbol_replaceAllUsesWith:
  "same_symbol (lookup_gv k (replaceAllUsesWith Old New s)) (lookup_gv k s)"
  by (simp add: same_symbol_def lookup_replaceAllUsesWith option.map_comp comp_def
      map_global_operands_fields)

lemma same_symbol_takeName:
  "k \<noteq> a \<Longrightarrow> k \<noteq> b \<Longrightarrow> same_symbol (lookup_gv k (takeName a b s)) (lookup_gv k s)"
  by (simp add: same_symbol_def takeName_def lookup_update_gv option.map_comp comp_def
      split: option.splits)

lemma same_symbol_globals:
  "globals s' = globals s \<Longrightarrow> same_symbol (lookup_gv k s') (lookup_gv k s)"
  by (simp add: same_symbol_def lookup_gv_def)

lemma same_symbol_erase:
  "k \<noteq> g \<Longrightarrow> same_symbol (lookup_gv k (eraseFromParent g s)) (lookup_gv k s)"
  by (simp add: same_symbol_def eraseFromParent_def lookup_delete_gv)

lemma errorcount_frames:
  "errorcount (update_gv g f s) = errorcount s"
  "errorcount (handleVisibility d g s) = errorcount s"
  "errorcount (replaceAllUsesWith Old New s) = errorcount s"
  "errorcount (takeName a b s) = errorcount s"
  "errorcount (eraseFromParent g s) = errorcount s"
  "errorcount (mark_written t s) = errorcount s"
  by (simp_all add: update_gv_def handleVisibility_def replaceAllUsesWith_def takeName_def
      eraseFromParent_def delete_gv_def mark_written_def split: option.splits)

lemma changeLLVMConstant_errorcount:
  "changeLLVMConstant Old New s = Inr s' \<Longrightarrow> errorcount s' = errorcount s"
  by (auto simp: changeLLVMConstant_def Let_def llvm_replace_cached_def split: if_splits)

lemma emit_alias_finish_succeeds:
  assumes v: "lookup_gv V s = Some v" and a: "lookup_gv A s = Some a" and ne: "A \<noteq> V"
  shows "\<exists>s' a'. emit_alias_finish decl V A s = Inr s' \<and>
           lookup_gv A s' = Some a' \<and> gv_kind a' = gv_kind a \<and> gv_linkage a' = gv_linkage a \<and>
           gv_in_module a' = gv_in_module a \<and> gv_name a' = gv_name a \<and>
           lookup_gv V s' = None \<and> errorcount s' = errorcount s \<and>
           TREE_ASM_WRITTEN (trees s' decl)"
proof (cases "GetLinkageForAlias (trees s decl) s = InternalLinkage")
  case True
  let ?Cast = "CreateBitCast s (GlobalRef A) (PointerTy (gv_elem_type v))"
  let ?s1 = "replaceAllUsesWith (GlobalRef V) ?Cast s"
  have "\<not> occurs (GlobalRef V) ?Cast"
    using ne by (auto simp: CreateBitCast_def)
  then have "use_empty (GlobalRef V) ?s1"
    by (rule use_empty_replaceAllUsesWith)
  from changeLLVMConstant_succeeds [OF this] obtain s2 where
    change: "changeLLVMConstant (GlobalRef V) (GlobalRef A) ?s1 = Inr s2"
    by blast
  from changeLLVMConstant_rebound [OF change] ne
  have g2: "globals s2 = globals ?s1" and t2: "trees s2 = trees ?s1"
    by auto
  let ?s' = "mark_written decl (eraseFromParent V s2)"
  have run: "emit_alias_finish decl V A s = Inr ?s'"
    using v a True change by (simp add: emit_alias_finish_def Let_def)
  have "same_symbol (lookup_gv A ?s') (lookup_gv A s)"
    unfolding lookup_mark_written
    by (rule same_symbol_trans [OF same_symbol_erase [OF ne]
          same_symbol_trans [OF same_symbol_globals [OF g2] same_symbol_replaceAllUsesWith]])
  from same_symbol_SomeD [OF this [unfolded a]] obtain a' where
    "lookup_gv A ?s' = Some a'" "gv_kind a' = gv_kind a" "gv_linkage a' = gv_linkage a"
    "gv_in_module a' = gv_in_module a" "gv_name a' = gv_name a"
    by blast
  moreover have "lookup_gv V ?s' = None"
    by (simp add: lookup_mark_written eraseFromParent_def lookup_delete_gv)
  moreover have "errorcount ?s' = errorcount s"
    by (simp add: errorcount_frames changeLLVMConstant_errorcount [OF change])
  moreover have "TREE_ASM_WRITTEN (trees ?s' decl)"
    by (simp add: mark_written_def)
  ultimately show ?thesis using run by blast
next
  case False
  obtain GA s1 where new: "new_GlobalAlias (gv_elem_type a) (GetLinkageForAlias (trees s decl) s) []
      (GlobalRef A) s = (GA, s1)"
    by (cases "new_GlobalAlias (gv_elem_type a) (GetLinkageForAlias (trees s decl) s) []
      (GlobalRef A) s") blast
  note look1 = lookup_add_global [OF new [unfolded new_GlobalAlias_def]]
  have fresh: "GA \<noteq> V" "GA \<noteq> A"
    using look1 fresh_gid_unused [of s] v a by auto
  let ?s2 = "handleVisibility (trees s decl) GA s1"
  let ?Cast = "CreateBitCast ?s2 (GlobalRef GA) (PointerTy (gv_elem_type v))"
  let ?s3 = "replaceAllUsesWith (GlobalRef V) ?Cast ?s2"
  have "\<not> occurs (GlobalRef V) ?Cast"
    using fresh by (auto simp: CreateBitCast_def)
  then have "use_empty (GlobalRef V) ?s3"
    by (rule use_empty_replaceAllUsesWith)
  from changeLLVMConstant_succeeds [OF this] obtain s4 where
    change: "changeLLVMConstant (GlobalRef V) (GlobalRef GA) ?s3 = Inr s4"
    by blast
  from changeLLVMConstant_rebound [OF change] fresh
  have g4: "globals s4 = globals ?s3" and t4: "trees s4 = trees ?s3"
    by auto
  let ?s' = "mark_written decl (eraseFromParent V (takeName GA V s4))"
  have run: "emit_alias_finish decl V A s = Inr ?s'"
    using v a False new change by (simp add: emit_alias_finish_def Let_def)
  have A1: "lookup_gv A s1 = lookup_gv A s"
    using look1 fresh by simp
  have "same_symbol (lookup_gv A ?s') (lookup_gv A s1)"
    unfolding lookup_mark_written
    by (rule same_symbol_trans [OF same_symbol_erase [OF ne]
          same_symbol_trans [OF same_symbol_takeName [OF fresh(2) [symmetric] ne]
            same_symbol_trans [OF same_symbol_globals [OF g4]
              same_symbol_trans [OF same_symbol_replaceAllUsesWith same_symbol_handleVisibility]]]])
  from same_symbol_SomeD [OF this [unfolded A1 a]] obtain a' where
    "lookup_gv A ?s' = Some a'" "gv_kind a' = gv_kind a" "gv_linkage a' = gv_linkage a"
    "gv_in_module a' = gv_in_module a" "gv_name a' = gv_name a"
    by blast
  moreover have "lookup_gv V ?s' = None"
    by (simp add: lookup_mark_written eraseFromParent_def lookup_delete_gv)
  moreover have "errorcount s1 = errorcount s"
    using new by (auto simp: new_GlobalAlias_def add_global_def Let_def)
  then have "errorcount ?s' = errorcount s"
    by (simp add: errorcount_frames changeLLVMConstant_errorcount [OF change])
  moreover have "TREE_ASM_WRITTEN (trees ?s' decl)"
    by (simp add: mark_written_def)
  ultimately show ?thesis using run by blast
qed

lemma alias_ids_globals: "globals s' = globals s \<Longrightarrow> alias_ids s' = alias_ids s"
  by (simp add: alias_ids_def)

lemma alias_ids_map:
  "(\<And>a b. fst (h (a, b)) = a \<and> gv_kind (snd (h (a, b))) = gv_kind b) \<Longrightarrow>
   map fst (filter (\<lambda>x. gv_kind (snd x) = GlobalAliasKind) (map h xs))
   = map fst (filter (\<lambda>x. gv_kind (snd x) = GlobalAliasKind) xs)"
  by (induction xs) auto

lemma alias_ids_update_gv:
  "(\<And>v. gv_kind (f v) = gv_kind v) \<Longrightarrow> alias_ids (update_gv g f s) = alias_ids s"
  unfolding alias_ids_def update_gv_def
  by (simp del: filter_map map_map) (rule alias_ids_map, simp)

lemma alias_ids_delete_gv: "set (alias_ids (delete_gv g s)) \<subseteq> set (alias_ids s)"
  by (auto simp: alias_ids_def delete_gv_def)

lemma alias_ids_add_global:
  "gv_kind v \<noteq> GlobalAliasKind \<Longrightarrow> add_global v s = (g, s') \<Longrightarrow> alias_ids s' = alias_ids s"
  by (auto simp: alias_ids_def add_global_def Let_def)

lemma alias_ids_replaceAllUsesWith: "alias_ids (replaceAllUsesWith Old New s) = alias_ids s"
  unfolding alias_ids_def replaceAllUsesWith_def
  by (simp del: filter_map map_map) (rule alias_ids_map, simp add: map_global_operands_fields)

lemma alias_frame_refl: "alias_frame s s"
  by (simp add: alias_frame_def)

lemma alias_frame_trans: "alias_frame s s1 \<Longrightarrow> alias_frame s1 s2 \<Longrightarrow> alias_frame s s2"
  by (auto simp: alias_frame_def)

lemma alias_frame_update_gv:
  "(\<And>v. gv_kind (f v) = gv_kind v) \<Longrightarrow> alias_frame s (update_gv g f s)"
  unfolding alias_frame_def
  by (simp add: alias_ids_update_gv) (simp add: update_gv_def)

lemma alias_frame_delete_gv: "alias_frame s (delete_gv g s)"
  unfolding alias_frame_def
  by (simp add: alias_ids_delete_gv) (simp add: delete_gv_def)

lemma alias_frame_add_global:
  "gv_kind v \<noteq> GlobalAliasKind \<Longrightarrow> add_global v s = (g, s') \<Longrightarrow> alias_frame s s'"
  unfolding alias_frame_def
  by (simp add: alias_ids_add_global) (auto simp: add_global_def Let_def)

lemma alias_frame_replaceAllUsesWith: "alias_frame s (replaceAllUsesWith Old New s)"
  unfolding alias_frame_def
  by (simp add: alias_ids_replaceAllUsesWith) (simp add: replaceAllUsesWith_def)

lemma alias_frame_fields:
  "globals s' = globals s \<Longrightarrow> trees s' = trees s \<Longrightarrow>
   cgraph_node_for_asm s' = cgraph_node_for_asm s \<Longrightarrow>
   varpool_node_for_asm s' = varpool_node_for_asm s \<Longrightarrow> alias_frame s s'"
  by (simp add: alias_frame_def alias_ids_def)

lemma alias_frame_changeLLVMConstant:
  "changeLLVMConstant Old New s = Inr s' \<Longrightarrow> alias_frame s s'"
  by (rule alias_frame_fields)
     (auto simp: changeLLVMConstant_def Let_def llvm_replace_cached_def split: if_splits)

lemma alias_frame_diagnostics:
  "alias_frame s (error msg s)" "alias_frame s (report_sorry msg s)" "alias_frame s (warning msg s)"
  by (simp_all add: alias_frame_def alias_ids_def error_def report_sorry_def warning_def)

lemma alias_frame_handleVisibility: "alias_frame s (handleVisibility d g s)"
  by (simp add: handleVisibility_def alias_frame_refl alias_frame_update_gv)

lemma alias_frame_set_external_weak: "alias_frame s (set_external_weak d g s)"
  by (simp add: set_external_weak_def alias_frame_refl alias_frame_update_gv)

lemma alias_frame_mark_constant: "alias_frame s (mark_constant d g s)"
  by (simp add: mark_constant_def alias_frame_refl alias_frame_update_gv split: option.splits)

lemma alias_frame_mark_thread_local: "alias_frame s (mark_thread_local d g s)"
  by (simp add: mark_thread_local_def alias_frame_refl alias_frame_update_gv)

lemma alias_frame_takeName: "alias_frame s (takeName a b s)"
  unfolding takeName_def
  by (auto split: option.splits
      intro!: alias_frame_refl alias_frame_trans [OF alias_frame_update_gv alias_frame_update_gv])

lemma alias_frame_eraseFromParent: "alias_frame s (eraseFromParent g s)"
  by (simp add: eraseFromParent_def alias_frame_delete_gv)

lemma alias_frame_SET_DECL_LLVM:
  "SET_DECL_LLVM t V s = Inr (r, s') \<Longrightarrow> alias_frame s s'"
  by (drule SET_DECL_LLVM_frame) (simp add: alias_frame_def alias_ids_def)

lemma alias_frame_replace_forward_decl:
  assumes "replace_forward_decl find_old msg New Name s = Inr s'"
  shows "alias_frame s s'"
proof -
  from assms obtain G and v :: global_value and s2 where
    c: "changeLLVMConstant (GlobalRef G) (CreateBitCast s (GlobalRef New) (PointerTy (gv_elem_type v)))
          (replaceAllUsesWith (GlobalRef G)
             (CreateBitCast s (GlobalRef New) (PointerTy (gv_elem_type v))) s) = Inr s2"
    and s': "s' = eraseFromParent G (takeName New G s2)"
    unfolding replace_forward_decl_def Let_def
    by (auto split: option.splits if_splits sum.splits)
  show ?thesis
    unfolding s'
    by (rule alias_frame_trans [OF alias_frame_replaceAllUsesWith
          alias_frame_trans [OF alias_frame_changeLLVMConstant [OF c]
            alias_frame_trans [OF alias_frame_takeName alias_frame_eraseFromParent]]])
qed

lemma alias_frame_create_function:
  assumes "create_function decl Name s = Inr (F, s')"
  shows "alias_frame s s'"
proof -
  obtain Ty CC PAL where cf: "ConvertFunctionType (trees s decl) = (Ty, CC, PAL)"
    by (cases "ConvertFunctionType (trees s decl)") auto
  obtain Fn s1 where new: "Function_Create Ty ExternalLinkage Name s = (Fn, s1)"
    by (cases "Function_Create Ty ExternalLinkage Name s") auto
  let ?s2 = "update_gv Fn (\<lambda>v. v\<lparr>gv_callingconv := CC, gv_attributes := PAL\<rparr>) s1"
  let ?s4 = "handleVisibility (trees s decl) Fn (set_external_weak (trees s decl) Fn ?s2)"
  have f1: "alias_frame s s1"
    using new unfolding Function_Create_def
    by (rule alias_frame_add_global [rotated]) (simp add: new_global_def)
  have f4: "alias_frame s ?s4"
    by (rule alias_frame_trans [OF f1 alias_frame_trans [OF alias_frame_update_gv
          alias_frame_trans [OF alias_frame_set_external_weak alias_frame_handleVisibility]]])
       simp
  from assms cf new have "s' = ?s4 \<or>
     replace_forward_decl getGlobalVariable ''A global turned into a function?'' Fn Name ?s4 = Inr s'"
    unfolding create_function_def Let_def
    by (auto split: option.splits if_splits sum.splits)
  then show ?thesis
    using f4 alias_frame_trans [OF f4 alias_frame_replace_forward_decl] by blast
qed

lemma alias_frame_create_variable:
  assumes "create_variable decl Name Ty s = Inr (G, s')"
  shows "alias_frame s s'"
proof -
  obtain GV s1 where new: "new_GlobalVariable Ty False ExternalLinkage None Name s = (GV, s1)"
    by (cases "new_GlobalVariable Ty False ExternalLinkage None Name s") auto
  let ?s2 = "handleVisibility (trees s decl) GV (set_external_weak (trees s decl) GV s1)"
  have f1: "alias_frame s s1"
    using new unfolding new_GlobalVariable_def
    by (rule alias_frame_add_global [rotated]) (simp add: new_global_def)
  have f2: "alias_frame s ?s2"
    by (rule alias_frame_trans [OF f1
          alias_frame_trans [OF alias_frame_set_external_weak alias_frame_handleVisibility]])
  from assms new have "s' = s \<or> s' = ?s2 \<or>
     replace_forward_decl getFunction ''A function turned into a global?'' GV Name ?s2 = Inr s'"
    unfolding create_variable_def Let_def
    by (auto split: option.splits if_splits sum.splits)
  then show ?thesis
    using f2 alias_frame_trans [OF f2 alias_frame_replace_forward_decl] alias_frame_refl by blast
qed

lemma alias_frame_make_decl_llvm_function:
  assumes "make_decl_llvm_function decl Name s = Inr (r, s')"
  shows "alias_frame s s'"
  using assms unfolding make_decl_llvm_function_def
  by (auto split: option.splits if_splits sum.splits
      intro: alias_frame_SET_DECL_LLVM
        alias_frame_trans [OF alias_frame_create_function alias_frame_SET_DECL_LLVM])

lemma alias_frame_make_decl_llvm_variable:
  assumes "make_decl_llvm_variable decl Name s = Inr (r, s')"
  shows "alias_frame s s'"
proof -
  from assms obtain Ty GV s1 where
    c: "create_variable decl Name Ty s = Inr (GV, s1)"
    and set: "SET_DECL_LLVM decl (Some (GlobalRef GV))
          (mark_thread_local (trees s decl) GV (mark_constant (trees s decl) GV s1)) = Inr (r, s')"
    unfolding make_decl_llvm_variable_def Let_def
    by (auto split: option.splits if_splits sum.splits)
  show ?thesis
    by (rule alias_frame_trans [OF alias_frame_create_variable [OF c]
          alias_frame_trans [OF alias_frame_mark_constant
            alias_frame_trans [OF alias_frame_mark_thread_local
              alias_frame_SET_DECL_LLVM [OF set]]]])
qed

lemma alias_frame_register_name_check: "alias_frame s (register_name_check Name s)"
  by (simp add: register_name_check_def alias_frame_refl alias_frame_diagnostics
      split: option.splits)

lemma alias_frame_adjust_common: "alias_frame s (adjust_common decl s)"
  by (simp add: adjust_common_def Let_def clear_DECL_COMMON_def alias_frame_def alias_ids_def
      fun_eq_iff)

lemma alias_frame_ValidateRegisterVariable:
  "ValidateRegisterVariable decl s = Inr (b, s') \<Longrightarrow> alias_frame s s'"
  unfolding ValidateRegisterVariable_def Let_def
  by (auto split: sum.splits if_splits intro: alias_frame_refl alias_frame_diagnostics)

lemma alias_frame_make_decl_llvm:
  assumes "make_decl_llvm decl s = Inr (r, s')"
  shows "alias_frame s s'"
proof -
  let ?d = "trees s decl"
  let ?Name = "if TREE_CODE ?d \<noteq> CONST_DECL then getLLVMAssemblerName ?d else []"
  let ?s1 = "adjust_common decl (register_name_check ?Name s)"
  have f1: "alias_frame s ?s1"
    by (rule alias_frame_trans [OF alias_frame_register_name_check alias_frame_adjust_common])
  from assms have "s' = s \<or> (\<exists>b. ValidateRegisterVariable decl s = Inr (b, s')) \<or>
      make_decl_llvm_function decl ?Name ?s1 = Inr (r, s') \<or>
      make_decl_llvm_variable decl ?Name ?s1 = Inr (r, s')"
    unfolding make_decl_llvm_def Let_def
    by (auto split: option.splits if_splits sum.splits)
  then show ?thesis
    using alias_frame_refl alias_frame_ValidateRegisterVariable
      alias_frame_trans [OF f1 alias_frame_make_decl_llvm_function]
      alias_frame_trans [OF f1 alias_frame_make_decl_llvm_variable]
    by blast
qed

lemma resolve_alias_target_frame:
  "alias_frame s s1 \<Longrightarrow> resolve_alias_target w t s1 = resolve_alias_target w t s"
  unfolding resolve_alias_target_def alias_frame_def
  by (elim conjE) (simp only:)

lemma is_weakref_frame: "alias_frame s s1 \<Longrightarrow> is_weakref decl s1 = is_weakref decl s"
  by (auto simp: is_weakref_def alias_frame_def dest: fun_cong [of _ _ decl])

lemma cast_global_live:
  "lookup_gv V s = Some v \<Longrightarrow>
   cast_global [GlobalVariableKind, FunctionKind, GlobalAliasKind] (Some (GlobalRef V)) s = Inr V"
  using value_kind_cases [of "gv_kind v"] by (auto simp: cast_global_def)

lemma weakref_target_created:
  assumes new: "add_global (new_global k ty c ExternalWeakLinkage None nm) s1 = (A, s2)"
    and v: "lookup_gv V s1 = Some v"
  shows "\<exists>s' a. emit_alias_finish decl V A s2 = Inr s' \<and> lookup_gv A s1 = None \<and>
           lookup_gv A s' = Some a \<and> gv_name a = unique_name nm s1 \<and>
           gv_linkage a = ExternalWeakLinkage \<and> gv_in_module a \<and> gv_kind a = k \<and>
           lookup_gv V s' = None \<and> errorcount s' = errorcount s1 \<and>
           TREE_ASM_WRITTEN (trees s' decl)"
proof -
  note look = lookup_add_global [OF new]
  have A: "lookup_gv A s1 = None"
    using look fresh_gid_unused [of s1] by simp
  then have ne: "A \<noteq> V"
    using v by auto
  have v2: "lookup_gv V s2 = Some v"
    using look ne v by simp
  let ?a = "(new_global k ty c ExternalWeakLinkage None nm)\<lparr>gv_name := unique_name nm s1\<rparr>"
  have a2: "lookup_gv A s2 = Some ?a"
    using look by (simp add: new_global_def)
  have e2: "errorcount s2 = errorcount s1"
    using new by (auto simp: add_global_def Let_def)
  from emit_alias_finish_succeeds [OF v2 a2 ne, of decl] obtain s' a' where
    "emit_alias_finish decl V A s2 = Inr s'" "lookup_gv A s' = Some a'"
    "gv_kind a' = gv_kind ?a" "gv_linkage a' = gv_linkage ?a" "gv_in_module a' = gv_in_module ?a"
    "gv_name a' = gv_name ?a" "lookup_gv V s' = None" "errorcount s' = errorcount s2"
    "TREE_ASM_WRITTEN (trees s' decl)"
    by blast
  then show ?thesis
    using A e2 by (simp add: new_global_def)
qed

text \<open>
  C5.  Let the unit be free of errors, let \<open>DECL_LLVM\<close> of the alias declaration be a
  live symbol, and let the target resolve to a name that neither the call graph nor the
  variable pool defines.  If the declaration carries \<open>weakref\<close> (and its symbol is a
  variable or a function), \<open>emit_alias\<close> succeeds: it creates a symbol that did not
  exist, of the kind of the declaration's symbol, with external-weak linkage, under the
  target's name (made unique in the symbol table), which is in the module afterwards;
  no error is reported and the declaration is marked as written.  Without \<open>weakref\<close>,
  \<open>emit_alias\<close> reports the error \<open>aliased to undefined symbol\<close>, leaves the module as
  \<open>DECL_LLVM\<close> left it and returns; no alias symbol was added.
\<close>

theorem emit_alias_undefined_target:
  assumes ok: "\<not> broken_code s"
    and V: "DECL_LLVM decl s = Inr (Some (GlobalRef V), s1)"
    and v: "lookup_gv V s1 = Some v"
    and kind: "is_weakref decl s \<Longrightarrow> gv_kind v \<noteq> GlobalAliasKind"
    and target: "resolve_alias_target (is_weakref decl s) target s = TargetIdentifier i"
  shows "if is_weakref decl s
         then \<exists>s' A a. emit_alias n decl target s = Inr s' \<and>
                lookup_gv A s1 = None \<and> lookup_gv A s' = Some a \<and>
                gv_name a = unique_name (IDENTIFIER_POINTER i) s1 \<and>
                gv_linkage a = ExternalWeakLinkage \<and> gv_in_module a \<and> gv_kind a = gv_kind v \<and>
                errorcount s' = errorcount s1 \<and> TREE_ASM_WRITTEN (trees s' decl)
         else \<exists>s'. emit_alias n decl target s = Inr s' \<and>
                errorcount s' = Suc (errorcount s1) \<and>
                diagnostics s' = diagnostics s1 @ [Error ''%q+D aliased to undefined symbol %qs''] \<and>
                globals s' = globals s1 \<and>
                set (alias_ids s') \<subseteq> set (alias_ids s)"
proof -
  have frame: "alias_frame s s1"
    using V unfolding DECL_LLVM_def by (rule alias_frame_make_decl_llvm)
  note w1 = is_weakref_frame [OF frame, of decl, unfolded is_weakref_def]
  have t1: "resolve_alias_target (lookup_attribute ''weakref'' (DECL_ATTRIBUTES (trees s1 decl)))
              target s1 = TargetIdentifier i"
    using target resolve_alias_target_frame [OF frame] w1 by (simp add: is_weakref_def)
  note c = cast_global_live [OF v]
  show ?thesis
  proof (cases "is_weakref decl s")
    case False
    have run: "emit_alias n decl target s = Inr (error ''%q+D aliased to undefined symbol %qs'' s1)"
      using ok V c t1 w1 False by (simp add: emit_alias_def Let_def is_weakref_def)
    have "set (alias_ids (error ''%q+D aliased to undefined symbol %qs'' s1)) \<subseteq> set (alias_ids s)"
      using alias_frame_trans [OF frame alias_frame_diagnostics(1)] by (simp add: alias_frame_def)
    then show ?thesis
      using False run by (simp add: error_def)
  next
    case True
    note k = kind [OF True]
    show ?thesis
    proof (cases "gv_kind v = GlobalVariableKind")
      case var: True
      obtain A s2 where new: "new_GlobalVariable (PointerTy (gv_elem_type v)) (gv_is_constant v)
             ExternalWeakLinkage None (IDENTIFIER_POINTER i) s1 = (A, s2)"
        by (cases "new_GlobalVariable (PointerTy (gv_elem_type v)) (gv_is_constant v)
             ExternalWeakLinkage None (IDENTIFIER_POINTER i) s1") auto
      have run: "emit_alias n decl target s = emit_alias_finish decl V A s2"
        using ok V c t1 w1 True v var new by (simp add: emit_alias_def Let_def is_weakref_def)
      from weakref_target_created [OF new [unfolded new_GlobalVariable_def] v, of decl]
      show ?thesis
        using True var unfolding run by auto
    next
      case nvar: False
      then have fn: "gv_kind v = FunctionKind"
        using k value_kind_cases [of "gv_kind v"] by auto
      obtain A s2 where new: "Function_Create (gv_elem_type v) ExternalWeakLinkage
             (IDENTIFIER_POINTER i) s1 = (A, s2)"
        by (cases "Function_Create (gv_elem_type v) ExternalWeakLinkage
             (IDENTIFIER_POINTER i) s1") auto
      have run: "emit_alias n decl target s = emit_alias_finish decl V A s2"
        using ok V c t1 w1 True v fn new by (simp add: emit_alias_def Let_def is_weakref_def)
      from weakref_target_created [OF new [unfolded Function_Create_def] v, of decl]
      show ?thesis
        using True fn unfolding run by auto
    qed
  qed
qed

theorem emit_alias_undefined_target_witness:
  "(\<exists>s' A a. emit_alias 0 1 (TargetIdentifier (IDENTIFIER_NODE ''y'' None)) weakref_unit = Inr s' \<and>
      lookup_gv A s' = Some a \<and> gv_name a = ''y'' \<and> gv_linkage a = ExternalWeakLinkage \<and>
      gv_in_module a \<and> gv_kind a = GlobalVariableKind \<and> errorcount s' = 0) \<and>
   (\<exists>s'. emit_alias 0 1 (TargetIdentifier (IDENTIFIER_NODE ''y'' None)) empty_unit = Inr s' \<and>
      errorcount s' = 1 \<and> alias_ids s' = [])"
proof -
  let ?y = "IDENTIFIER_NODE ''y'' None"
  have ok: "\<not> broken_code weakref_unit" "\<not> broken_code empty_unit"
    by code_simp+
  have w: "is_weakref 1 weakref_unit" "\<not> is_weakref 1 empty_unit"
    by code_simp+
  have t: "resolve_alias_target True (TargetIdentifier ?y) weakref_unit = TargetIdentifier ?y"
    "resolve_alias_target False (TargetIdentifier ?y) empty_unit = TargetIdentifier ?y"
    by code_simp+
  have "case DECL_LLVM 1 weakref_unit of
          Inr (r, s1) \<Rightarrow> r = Some (GlobalRef 1) \<and> unique_name ''y'' s1 = ''y'' \<and> errorcount s1 = 0 \<and>
            (case lookup_gv 1 s1 of Some v \<Rightarrow> gv_kind v = GlobalVariableKind | None \<Rightarrow> False)
        | Inl e \<Rightarrow> False"
    by code_simp
  then obtain s1 v where a: "DECL_LLVM 1 weakref_unit = Inr (Some (GlobalRef 1), s1)"
    and a1: "unique_name ''y'' s1 = ''y''" "errorcount s1 = 0"
    and a2: "lookup_gv 1 s1 = Some v" "gv_kind v = GlobalVariableKind"
    by (auto split: sum.splits option.splits)
  have "case DECL_LLVM 1 empty_unit of
          Inr (r, s1) \<Rightarrow> r = Some (GlobalRef 1) \<and> errorcount s1 = 0 \<and>
            (case lookup_gv 1 s1 of Some v \<Rightarrow> True | None \<Rightarrow> False)
        | Inl e \<Rightarrow> False"
    by code_simp
  then obtain u1 u where b: "DECL_LLVM 1 empty_unit = Inr (Some (GlobalRef 1), u1)"
    and b1: "errorcount u1 = 0"
    and b2: "lookup_gv 1 u1 = Some u"
    by (auto split: sum.splits option.splits)
  have e: "alias_ids empty_unit = []"
    by code_simp
  have k: "gv_kind v \<noteq> GlobalAliasKind"
    using a2 by simp
  note first = emit_alias_undefined_target [OF ok(1) a a2(1) k, of "TargetIdentifier ?y" ?y 0]
  note second = emit_alias_undefined_target [OF ok(2) b b2, of "TargetIdentifier ?y" ?y 0]
  from first w(1) t(1) a1 a2 have
    "\<exists>s' A a. emit_alias 0 1 (TargetIdentifier ?y) weakref_unit = Inr s' \<and>
      lookup_gv A s' = Some a \<and> gv_name a = ''y'' \<and> gv_linkage a = ExternalWeakLinkage \<and>
      gv_in_module a \<and> gv_kind a = GlobalVariableKind \<and> errorcount s' = 0"
    by auto
  moreover from second w(2) t(2) b1 e have
    "\<exists>s'. emit_alias 0 1 (TargetIdentifier ?y) empty_unit = Inr s' \<and>
      errorcount s' = 1 \<and> alias_ids s' = []"
    by auto
  ultimately show ?thesis ..
qed

end
